theory Spec2Isabelle
  imports Main
begin

section \<open>The Jira connector: data model\<close>

text \<open>
  A shallow embedding of \<^verbatim>\<open>backend/onyx/connectors/onyx_jira/connector.py\<close>. The names
  are the source's, without a leading underscore.

  A Python \<^verbatim>\<open>str\<close> is modelled by its UTF-8 encoding, a list of bytes (type
  \<open>string\<close>): concatenation, joining, formatting and equality of strings are the same on
  the encodings, and \<^verbatim>\<open>len(s.encode("utf-8"))\<close> is \<open>length s\<close>. A \<^verbatim>\<open>str\<close> with an
  unpaired surrogate has no encoding and is outside the model.
\<close>

subsection \<open>Exceptions\<close>

text \<open>
  An exception raised by a collaborator (the \<^verbatim>\<open>jira\<close> client, the helpers of
  \<^verbatim>\<open>onyx_jira/utils.py\<close>): what \<^verbatim>\<open>getattr(e, "status_code", None)\<close> and
  \<^verbatim>\<open>str(e)\<close> give.
\<close>

datatype exn = Exn (status_code: "int option") (exn_str: string)

text \<open>
  The exceptions a call of the connector ends with. \<open>Propagated\<close> is a collaborator's
  exception passing through unchanged; \<open>DatetimeRangeError\<close> is the \<^verbatim>\<open>ValueError\<close>
  (or \<^verbatim>\<open>OverflowError\<close>) of \<^verbatim>\<open>datetime.fromtimestamp\<close> for a time past year 9999;
  \<open>Exception\<close> is the plain \<^verbatim>\<open>Exception\<close> of the pager.
\<close>

datatype error =
    ConnectorMissingCredentialError string
  | CredentialExpiredError string
  | InsufficientPermissionsError string
  | ConnectorValidationError string
  | RuntimeError string
  | Exception string
  | DatetimeRangeError
  | Propagated exn

subsection \<open>Python values and strings\<close>

text \<open>
  The values \<^verbatim>\<open>best_effort_get_field_from_issue\<close> returns (type \<^verbatim>\<open>Any\<close>): \<^verbatim>\<open>None\<close>, a
  string, a list of strings, or an object with named attributes.
\<close>

datatype pyval =
    PyNone
  | PyStr string
  | PyList "string list"
  | PyObject "(string \<times> pyval) list"

text \<open>Truth value of a Python value, as \<^verbatim>\<open>if x:\<close> tests it.\<close>

fun truthy :: "pyval \<Rightarrow> bool" where
  "truthy PyNone = False"
| "truthy (PyStr s) = (s \<noteq> [])"
| "truthy (PyList xs) = (xs \<noteq> [])"
| "truthy (PyObject attrs) = True"

text \<open>\<^verbatim>\<open>x.name\<close>: the attribute, or \<^verbatim>\<open>AttributeError\<close>.\<close>

fun attr_name :: "pyval \<Rightarrow> exn + pyval" where
  "attr_name (PyObject attrs) =
     (case map_of attrs ''name'' of
        Some v \<Rightarrow> Inr v
      | None \<Rightarrow> Inl (Exn None ''AttributeError: name''))"
| "attr_name v = Inl (Exn None ''AttributeError: name'')"

definition newline :: string where
  "newline = [CHR 0x0A]"

text \<open>\<^verbatim>\<open>f"{x}"\<close> for an optional string: \<^verbatim>\<open>str(None)\<close> is \<^verbatim>\<open>"None"\<close>.\<close>

fun format_optional :: "string option \<Rightarrow> string" where
  "format_optional None = ''None''"
| "format_optional (Some s) = s"

text \<open>\<^verbatim>\<open>sep.join(xs)\<close>.\<close>

fun join :: "string \<Rightarrow> string list \<Rightarrow> string" where
  "join sep [] = []"
| "join sep [x] = x"
| "join sep (x # y # ys) = x @ sep @ join sep (y # ys)"

text \<open>\<^verbatim>\<open>s.rstrip("/")\<close>.\<close>

definition rstrip_slash :: "string \<Rightarrow> string" where
  "rstrip_slash s = rev (dropWhile (\<lambda>c. c = CHR ''/'') (rev s))"

subsection \<open>UTC rendering of epoch seconds\<close>

text \<open>
  \<^verbatim>\<open>datetime.fromtimestamp(t, tz=timezone.utc).strftime("%Y-%m-%d %H:%M")\<close>, for a
  whole number \<open>t\<close> of seconds since the Unix epoch (\<^verbatim>\<open>SecondsSinceUnixEpoch\<close>); negative
  and fractional times are outside the model. The civil date is computed as Python's
  own \<^verbatim>\<open>_ord2ymd\<close> does (\<^verbatim>\<open>Lib/_pydatetime.py\<close>), from the proleptic Gregorian ordinal
  (day 1 is 0001-01-01; 1970-01-01 is day 719163). The tables \<^verbatim>\<open>_DAYS_BEFORE_MONTH\<close> and
  \<^verbatim>\<open>_DAYS_IN_MONTH\<close> are indexed by the month, from 1; their entry 0 is a placeholder
  that is never read. A year past \<^verbatim>\<open>MAXYEAR\<close> is the range error of \<^verbatim>\<open>fromtimestamp\<close>.
\<close>

record datetime =
  year :: nat
  month :: nat
  day :: nat
  hour :: nat
  minute :: nat
  second :: nat

definition MAXYEAR :: nat where
  "MAXYEAR = 9999"

definition days_before_month :: "nat \<Rightarrow> nat" where
  "days_before_month m = [0, 0, 31, 59, 90, 120, 151, 181, 212, 243, 273, 304, 334] ! m"

definition days_in_month :: "nat \<Rightarrow> nat" where
  "days_in_month m = [0, 31, 28, 31, 30, 31, 30, 31, 31, 30, 31, 30, 31] ! m"

definition ord2ymd :: "nat \<Rightarrow> nat \<times> nat \<times> nat" where
  "ord2ymd ordinal =
     (let n = ordinal - 1;
          n400 = n div 146097; n = n mod 146097;
          n100 = n div 36524; n = n mod 36524;
          n4 = n div 1461; n = n mod 1461;
          n1 = n div 365; n = n mod 365;
          y = n400 * 400 + 1 + n100 * 100 + n4 * 4 + n1
      in if n1 = 4 \<or> n100 = 4 then (y - 1, 12, 31)
         else
           let leapyear = (n1 = 3 \<and> (n4 \<noteq> 24 \<or> n100 = 3));
               m = (n + 50) div 32;
               preceding = days_before_month m + (if m > 2 \<and> leapyear then 1 else 0)
           in if preceding > n
              then (y, m - 1,
                    n + (days_in_month (m - 1) + (if m - 1 = 2 \<and> leapyear then 1 else 0))
                      - preceding + 1)
              else (y, m, n - preceding + 1))"

definition fromtimestamp_utc :: "nat \<Rightarrow> error + datetime" where
  "fromtimestamp_utc t =
     (case ord2ymd (719163 + t div 86400) of
        (y, m, d) \<Rightarrow>
          if y > MAXYEAR then Inl DatetimeRangeError
          else Inr \<lparr>year = y, month = m, day = d,
                    hour = t mod 86400 div 3600,
                    minute = t mod 3600 div 60,
                    second = t mod 60\<rparr>)"

definition digit :: "nat \<Rightarrow> char" where
  "digit d = ''0123456789'' ! d"

definition pad2 :: "nat \<Rightarrow> string" where
  "pad2 n = [digit (n div 10 mod 10), digit (n mod 10)]"

definition pad4 :: "nat \<Rightarrow> string" where
  "pad4 n = [digit (n div 1000 mod 10), digit (n div 100 mod 10),
             digit (n div 10 mod 10), digit (n mod 10)]"

text \<open>\<^verbatim>\<open>dt.strftime("%Y-%m-%d %H:%M")\<close>, for a year of four digits.\<close>

definition strftime_ymd_hm :: "datetime \<Rightarrow> string" where
  "strftime_ymd_hm dt =
     pad4 (year dt) @ ''-'' @ pad2 (month dt) @ ''-'' @ pad2 (day dt) @ '' '' @
     pad2 (hour dt) @ '':'' @ pad2 (minute dt)"

subsection \<open>Remote records and the client\<close>

text \<open>
  A \<^verbatim>\<open>jira.resources.Issue\<close>: the attributes the connector reads directly
  (\<^verbatim>\<open>issue.key\<close>, \<^verbatim>\<open>issue.fields.summary\<close>, \<^verbatim>\<open>.description\<close>, \<^verbatim>\<open>.labels\<close>, \<^verbatim>\<open>.updated\<close>,
  \<^verbatim>\<open>issue.raw["fields"]["description"]\<close>) and the remaining fields, which only the
  helpers of \<^verbatim>\<open>utils.py\<close> look at.
\<close>

record issue =
  key :: string
  summary :: string
  description :: "string option"
  raw_description :: pyval
  labels :: "string list"
  updated :: string
  other_fields :: "(string \<times> pyval) list"

text \<open>
  An element of a search response: an \<open>Issue\<close>, or anything else (given by its
  \<^verbatim>\<open>str\<close>), for which \<^verbatim>\<open>isinstance(issue, Issue)\<close> is false.
\<close>

datatype jira_obj = IssueObj issue | OtherObj string

text \<open>One call of \<^verbatim>\<open>search_issues\<close>: \<open>(jql_str, startAt, maxResults, fields)\<close>.\<close>

type_synonym request = "string \<times> int \<times> int \<times> string option"

text \<open>
  The authenticated client (\<^verbatim>\<open>jira.JIRA\<close>), by the calls the connector makes. Each call
  returns or raises; the remote answers are taken as fixed during one operation.
\<close>

record jira =
  search_issues :: "string \<Rightarrow> int \<Rightarrow> int \<Rightarrow> string option \<Rightarrow> exn + jira_obj list"
  client_info :: string
  project :: "string \<Rightarrow> exn + unit"
  projects :: "exn + unit"

subsection \<open>Documents\<close>

datatype basic_expert_info =
  BasicExpertInfo (display_name: "string option") (email: "string option")

datatype document_source = JIRA

record text_section =
  section_link :: string
  section_text :: string

text \<open>
  \<^verbatim>\<open>Document\<close>. \<^verbatim>\<open>primary_owners\<close> is \<^verbatim>\<open>list(people) or None\<close> for a Python set
  \<^verbatim>\<open>people\<close>, whose order of iteration is not fixed: the model keeps the set.
  \<^verbatim>\<open>metadata\<close> is the dictionary in insertion order. The constructor is taken to
  accept the values it is given.
\<close>

record document =
  doc_id :: string
  sections :: "text_section list"
  source :: document_source
  semantic_identifier :: string
  title :: string
  doc_updated_at :: datetime
  primary_owners :: "basic_expert_info set option"
  metadata :: "(string \<times> pyval) list"

record slim_document =
  slim_id :: string
  perm_sync_data :: "string option"

subsection \<open>Collaborators and configuration\<close>

text \<open>
  The functions of \<^verbatim>\<open>onyx.connectors.onyx_jira.utils\<close> and
  \<^verbatim>\<open>cross_connector_utils\<close>, the constants of \<^verbatim>\<open>onyx.configs.app_configs\<close> and the
  environment variable the module reads are not part of \<^verbatim>\<open>connector.py\<close>: they are
  parameters of the model. A helper returns or raises (\<open>Inl\<close>). \<open>str_strip\<close> is
  Python's \<^verbatim>\<open>str.strip\<close>.
\<close>

type_synonym credentials = "(string \<times> string) list"

record utils =
  build_jira_client :: "credentials \<Rightarrow> string \<Rightarrow> error + jira"
  extract_text_from_adf :: "pyval \<Rightarrow> exn + string"
  get_comment_strs :: "issue \<Rightarrow> string list \<Rightarrow> exn + string list"
  best_effort_get_field_from_issue :: "issue \<Rightarrow> string \<Rightarrow> exn + pyval"
  best_effort_basic_expert_info :: "pyval \<Rightarrow> exn + basic_expert_info option"
  build_jira_url :: "jira \<Rightarrow> pyval \<Rightarrow> exn + string"
  time_str_to_utc :: "string \<Rightarrow> exn + datetime"
  str_strip :: "string \<Rightarrow> string"
  environ_JIRA_API_VERSION :: "string option"
  INDEX_BATCH_SIZE :: int
  JIRA_CONNECTOR_LABELS_TO_SKIP :: "string list"
  JIRA_CONNECTOR_MAX_TICKET_SIZE :: int

text \<open>\<^verbatim>\<open>JIRA_API_VERSION = os.environ.get("JIRA_API_VERSION") or "2"\<close>.\<close>

definition JIRA_API_VERSION :: "utils \<Rightarrow> string" where
  "JIRA_API_VERSION u =
     (case environ_JIRA_API_VERSION u of
        None \<Rightarrow> ''2''
      | Some v \<Rightarrow> if v = [] then ''2'' else v)"

definition JIRA_SLIM_PAGE_SIZE :: int where
  "JIRA_SLIM_PAGE_SIZE = 500"

definition JIRA_FULL_PAGE_SIZE :: int where
  "JIRA_FULL_PAGE_SIZE = 50"

section \<open>The search pager\<close>

text \<open>
  The \<^verbatim>\<open>for issue in issues\<close> loop of \<^verbatim>\<open>_paginate_jql_search\<close>. The generator hands
  each issue to its consumer before it looks at the next one, so the consumer's loop
  body runs in between: \<open>body\<close> is that loop body, on the consumer's state \<open>s\<close>, and an
  exception of the body ends the run. The result is the consumer's last state and the
  exception the run ended with, if any.
\<close>

fun for_each_issue ::
  "('s \<Rightarrow> issue \<Rightarrow> error + 's) \<Rightarrow> 's \<Rightarrow> jira_obj list \<Rightarrow> 's \<times> error option" where
  "for_each_issue body s [] = (s, None)"
| "for_each_issue body s (IssueObj i # rest) =
     (case body s i of
        Inl e \<Rightarrow> (s, Some e)
      | Inr s' \<Rightarrow> for_each_issue body s' rest)"
| "for_each_issue body s (OtherObj r # rest) =
     (s, Some (Exception (''Found Jira object not of type Issue: '' @ r)))"

text \<open>
  The \<^verbatim>\<open>while True\<close> loop of \<^verbatim>\<open>_paginate_jql_search\<close>, from offset \<open>start\<close>. \<open>log\<close> lists
  the search requests made so far. The loop need not end (a remote that always fills
  the page, a page size below 1): then the value is \<open>None\<close>.
\<close>

partial_function (option) paginate_loop ::
  "jira \<Rightarrow> string \<Rightarrow> int \<Rightarrow> string option \<Rightarrow> ('s \<Rightarrow> issue \<Rightarrow> error + 's) \<Rightarrow>
   int \<Rightarrow> 's \<Rightarrow> request list \<Rightarrow> ('s \<times> error option \<times> request list) option" where
  "paginate_loop jira_client jql max_results fields' body start s log =
     (case search_issues jira_client jql start max_results fields' of
        Inl e \<Rightarrow> Some (s, Some (Propagated e), log @ [(jql, start, max_results, fields')])
      | Inr issues \<Rightarrow>
          (case for_each_issue body s issues of
             (s', Some e) \<Rightarrow> Some (s', Some e, log @ [(jql, start, max_results, fields')])
           | (s', None) \<Rightarrow>
               if int (length issues) < max_results
               then Some (s', None, log @ [(jql, start, max_results, fields')])
               else paginate_loop jira_client jql max_results fields' body
                      (start + max_results) s' (log @ [(jql, start, max_results, fields')])))"

text \<open>
  \<^verbatim>\<open>_paginate_jql_search\<close>, drained by a loop with body \<open>body\<close> from the state \<open>s\<close>:
  \<^verbatim>\<open>start = 0\<close>, then the loop.
\<close>

definition paginate_jql_search ::
  "jira \<Rightarrow> string \<Rightarrow> int \<Rightarrow> string option \<Rightarrow> ('s \<Rightarrow> issue \<Rightarrow> error + 's) \<Rightarrow> 's \<Rightarrow>
   ('s \<times> error option \<times> request list) option" where
  "paginate_jql_search jira_client jql max_results fields' body s =
     paginate_loop jira_client jql max_results fields' body 0 s []"

text \<open>The consumer that keeps every issue it is given: the sequence the pager yields.\<close>

definition collect :: "issue list \<Rightarrow> issue \<Rightarrow> error + issue list" where
  "collect acc i = Inr (acc @ [i])"

text \<open>
  A client whose search, for the query \<open>jql\<close> and the field selection \<open>fields'\<close>, serves
  the result set \<open>rs\<close> page by page: at most \<open>maxResults\<close> records from offset
  \<open>startAt\<close>.
\<close>

definition serves :: "jira \<Rightarrow> string \<Rightarrow> string option \<Rightarrow> issue list \<Rightarrow> bool" where
  "serves jira_client jql fields' rs =
     (\<forall>startAt maxResults.
        search_issues jira_client jql startAt maxResults fields' =
          Inr (map IssueObj (take (nat maxResults) (drop (nat startAt) rs))))"

section \<open>The record transformer\<close>

text \<open>
  The body of the loop of \<^verbatim>\<open>fetch_jira_issues_batch\<close>, in its stages. The label filter
  (lines 88 to 94): \<^verbatim>\<open>labels_to_skip\<close> is a set or \<^verbatim>\<open>None\<close>, and the test is
  \<^verbatim>\<open>any(label in issue.fields.labels for label in labels_to_skip)\<close>.
\<close>

definition has_label_to_skip :: "string set option \<Rightarrow> issue \<Rightarrow> bool" where
  "has_label_to_skip labels_to_skip i =
     (case labels_to_skip of
        None \<Rightarrow> False
      | Some ls \<Rightarrow> ls \<noteq> {} \<and> (\<exists>label \<in> ls. label \<in> set (labels i)))"

text \<open>
  Lines 96 to 100: the description, the field itself under API version 2 (it may be
  \<^verbatim>\<open>None\<close>), the text of the rich-text document otherwise.
\<close>

definition issue_description :: "utils \<Rightarrow> issue \<Rightarrow> error + string option" where
  "issue_description u i =
     (if JIRA_API_VERSION u = ''2'' then Inr (description i)
      else case extract_text_from_adf u (raw_description i) of
             Inl e \<Rightarrow> Inl (Propagated e)
           | Inr t \<Rightarrow> Inr (Some t))"

text \<open>
  Lines 105 to 107:
  \<^verbatim>\<open>f"{description}\n" + "\n".join([f"Comment: {comment}" for comment in comments if comment])\<close>.
\<close>

definition ticket_content :: "string option \<Rightarrow> string list \<Rightarrow> string" where
  "ticket_content descr comments =
     format_optional descr @ newline @
     join newline (map (\<lambda>comment. ''Comment: '' @ comment)
                    (filter (\<lambda>comment. comment \<noteq> []) comments))"

text \<open>Lines 96 to 107: description, comments, content.\<close>

definition assemble_content :: "utils \<Rightarrow> string list \<Rightarrow> issue \<Rightarrow> error + string" where
  "assemble_content u comment_email_blacklist i =
     (case issue_description u i of
        Inl e \<Rightarrow> Inl e
      | Inr descr \<Rightarrow>
          (case get_comment_strs u i comment_email_blacklist of
             Inl e \<Rightarrow> Inl (Propagated e)
           | Inr comments \<Rightarrow> Inr (ticket_content descr comments)))"

text \<open>
  Lines 120 to 126 and 128 to 134: one person field, inside its \<^verbatim>\<open>try\<close> with
  \<^verbatim>\<open>except Exception: pass\<close>. The result is what the block adds to \<^verbatim>\<open>people\<close>.
\<close>

definition resolve_person :: "utils \<Rightarrow> issue \<Rightarrow> string \<Rightarrow> basic_expert_info set" where
  "resolve_person u i field =
     (case best_effort_get_field_from_issue u i field of
        Inl e \<Rightarrow> {}
      | Inr person \<Rightarrow>
          (case best_effort_basic_expert_info u person of
             Inl e \<Rightarrow> {}
           | Inr None \<Rightarrow> {}
           | Inr (Some info) \<Rightarrow> {info}))"

text \<open>The \<^verbatim>\<open>try\<close> block of a person field raises, and the exception is swallowed.\<close>

definition person_resolution_raises :: "utils \<Rightarrow> issue \<Rightarrow> string \<Rightarrow> bool" where
  "person_resolution_raises u i field =
     (case best_effort_get_field_from_issue u i field of
        Inl e \<Rightarrow> True
      | Inr person \<Rightarrow>
          (case best_effort_basic_expert_info u person of
             Inl e \<Rightarrow> True
           | Inr r \<Rightarrow> False))"

definition people :: "utils \<Rightarrow> issue \<Rightarrow> basic_expert_info set" where
  "people u i = resolve_person u i ''creator'' \<union> resolve_person u i ''assignee''"

text \<open>
  Lines 137 to 142: one of priority, status and resolution; the field's \<^verbatim>\<open>name\<close> goes
  into the dictionary when the field is truthy.
\<close>

definition metadata_name ::
  "utils \<Rightarrow> issue \<Rightarrow> string \<Rightarrow> (string \<times> pyval) list \<Rightarrow> error + (string \<times> pyval) list" where
  "metadata_name u i field metadata_dict =
     (case best_effort_get_field_from_issue u i field of
        Inl e \<Rightarrow> Inl (Propagated e)
      | Inr v \<Rightarrow>
          if truthy v
          then (case attr_name v of
                  Inl e \<Rightarrow> Inl (Propagated e)
                | Inr n \<Rightarrow> Inr (metadata_dict @ [(field, n)]))
          else Inr metadata_dict)"

text \<open>Lines 136 to 144.\<close>

definition issue_metadata :: "utils \<Rightarrow> issue \<Rightarrow> error + (string \<times> pyval) list" where
  "issue_metadata u i =
     (case metadata_name u i ''priority'' [] of
        Inl e \<Rightarrow> Inl e
      | Inr m1 \<Rightarrow>
     (case metadata_name u i ''status'' m1 of
        Inl e \<Rightarrow> Inl e
      | Inr m2 \<Rightarrow>
     (case metadata_name u i ''resolution'' m2 of
        Inl e \<Rightarrow> Inl e
      | Inr m3 \<Rightarrow>
     (case best_effort_get_field_from_issue u i ''labels'' of
        Inl e \<Rightarrow> Inl (Propagated e)
      | Inr ls \<Rightarrow> Inr (if truthy ls then m3 @ [(''label'', ls)] else m3)))))"

text \<open>
  Lines 117 to 156, for an issue that passed both filters: the link, the owners, the
  metadata and the \<^verbatim>\<open>Document\<close>. The owners are computed first and cannot fail.
\<close>

definition build_document :: "utils \<Rightarrow> jira \<Rightarrow> issue \<Rightarrow> string \<Rightarrow> error + document" where
  "build_document u jira_client i content =
     (let page_url = client_info jira_client @ ''/browse/'' @ key i;
          owners = people u i
      in case issue_metadata u i of
           Inl e \<Rightarrow> Inl e
         | Inr metadata_dict \<Rightarrow>
             (case time_str_to_utc u (updated i) of
                Inl e \<Rightarrow> Inl (Propagated e)
              | Inr t \<Rightarrow>
                  Inr \<lparr>doc_id = page_url,
                       sections = [\<lparr>section_link = page_url, section_text = content\<rparr>],
                       source = JIRA,
                       semantic_identifier = key i @ '': '' @ summary i,
                       title = key i @ '' '' @ summary i,
                       doc_updated_at = t,
                       primary_owners = (if owners = {} then None else Some owners),
                       metadata = metadata_dict\<rparr>))"

text \<open>
  One turn of the loop (lines 88 to 156): \<open>Inr None\<close> is \<^verbatim>\<open>continue\<close> (the issue is
  skipped), \<open>Inr (Some d)\<close> is \<^verbatim>\<open>yield d\<close>, \<open>Inl e\<close> is an exception leaving the
  generator.
\<close>

definition process_issue ::
  "utils \<Rightarrow> jira \<Rightarrow> string list \<Rightarrow> string set option \<Rightarrow> issue \<Rightarrow> error + document option" where
  "process_issue u jira_client comment_email_blacklist labels_to_skip i =
     (if has_label_to_skip labels_to_skip i then Inr None
      else case assemble_content u comment_email_blacklist i of
             Inl e \<Rightarrow> Inl e
           | Inr content \<Rightarrow>
               if int (length content) > JIRA_CONNECTOR_MAX_TICKET_SIZE u then Inr None
               else (case build_document u jira_client i content of
                       Inl e \<Rightarrow> Inl e
                     | Inr d \<Rightarrow> Inr (Some d)))"

text \<open>The consumer state of the transformer is the list of documents yielded so far.\<close>

definition transform_step ::
  "utils \<Rightarrow> jira \<Rightarrow> string list \<Rightarrow> string set option \<Rightarrow>
   document list \<Rightarrow> issue \<Rightarrow> error + document list" where
  "transform_step u jira_client comment_email_blacklist labels_to_skip docs i =
     (case process_issue u jira_client comment_email_blacklist labels_to_skip i of
        Inl e \<Rightarrow> Inl e
      | Inr None \<Rightarrow> Inr docs
      | Inr (Some d) \<Rightarrow> Inr (docs @ [d]))"

text \<open>
  \<^verbatim>\<open>fetch_jira_issues_batch\<close>, drained: the documents it yields, the exception that ended
  it (if any) and the search requests it made; \<open>None\<close> when it never ends.
\<close>

definition fetch_jira_issues_batch ::
  "utils \<Rightarrow> jira \<Rightarrow> string \<Rightarrow> int \<Rightarrow> string list \<Rightarrow> string set option \<Rightarrow>
   (document list \<times> error option \<times> request list) option" where
  "fetch_jira_issues_batch u jira_client jql batch_size' comment_email_blacklist labels_to_skip =
     paginate_jql_search jira_client jql batch_size' None
       (transform_step u jira_client comment_email_blacklist labels_to_skip) []"

section \<open>The connector\<close>

text \<open>
  \<^verbatim>\<open>JiraConnector\<close>. \<open>jira_client_attr\<close> is the attribute \<^verbatim>\<open>_jira_client\<close> and
  \<open>comment_email_blacklist_attr\<close> the attribute \<^verbatim>\<open>_comment_email_blacklist\<close>; the
  properties of the same names are functions below.
\<close>

record connector =
  batch_size :: int
  jira_base :: string
  jira_project :: "string option"
  comment_email_blacklist_attr :: "string list"
  labels_to_skip :: "string set"
  jira_client_attr :: "jira option"

text \<open>\<^verbatim>\<open>__init__\<close>; an argument left out is \<open>None\<close>.\<close>

definition JiraConnector ::
  "utils \<Rightarrow> string \<Rightarrow> string option \<Rightarrow> string list option \<Rightarrow> int option \<Rightarrow>
   string list option \<Rightarrow> connector" where
  "JiraConnector u jira_base_url project_key comment_email_blacklist batch_size' labels_to_skip' =
     \<lparr>batch_size = (case batch_size' of None \<Rightarrow> INDEX_BATCH_SIZE u | Some b \<Rightarrow> b),
      jira_base = rstrip_slash jira_base_url,
      jira_project = project_key,
      comment_email_blacklist_attr =
        (case comment_email_blacklist of None \<Rightarrow> [] | Some l \<Rightarrow> l),
      labels_to_skip =
        set (case labels_to_skip' of None \<Rightarrow> JIRA_CONNECTOR_LABELS_TO_SKIP u | Some l \<Rightarrow> l),
      jira_client_attr = None\<rparr>"

definition comment_email_blacklist :: "utils \<Rightarrow> connector \<Rightarrow> string list" where
  "comment_email_blacklist u self = map (str_strip u) (comment_email_blacklist_attr self)"

definition jira_client :: "connector \<Rightarrow> error + jira" where
  "jira_client self =
     (case jira_client_attr self of
        None \<Rightarrow> Inl (ConnectorMissingCredentialError ''Jira'')
      | Some c \<Rightarrow> Inr c)"

text \<open>\<^verbatim>\<open>if self.jira_project\<close>: the project key is neither \<^verbatim>\<open>None\<close> nor empty.\<close>

definition has_project :: "connector \<Rightarrow> bool" where
  "has_project self = (case jira_project self of None \<Rightarrow> False | Some p \<Rightarrow> p \<noteq> [])"

definition quoted_jira_project :: "connector \<Rightarrow> string" where
  "quoted_jira_project self =
     (if \<not> has_project self then []
      else [CHR 0x22] @ the (jira_project self) @ [CHR 0x22])"

text \<open>
  \<^verbatim>\<open>load_credentials\<close>: the result and the connector afterwards. When
  \<^verbatim>\<open>build_jira_client\<close> raises, nothing is assigned.
\<close>

definition load_credentials ::
  "utils \<Rightarrow> connector \<Rightarrow> credentials \<Rightarrow> (error + unit) \<times> connector" where
  "load_credentials u self creds =
     (case build_jira_client u creds (jira_base self) of
        Inl e \<Rightarrow> (Inl e, self)
      | Inr c \<Rightarrow> (Inr (), self\<lparr>jira_client_attr := Some c\<rparr>))"

text \<open>\<^verbatim>\<open>_get_jql_query\<close>.\<close>

definition get_jql_query :: "connector \<Rightarrow> string" where
  "get_jql_query self =
     (if has_project self then ''project = '' @ quoted_jira_project self else [])"

text \<open>
  The batching loop of \<^verbatim>\<open>load_from_state\<close> and \<^verbatim>\<open>poll_source\<close> (lines 212 to 225) and of
  \<^verbatim>\<open>retrieve_all_slim_documents\<close>, over the items the inner generator yields and the
  exception it ended with: \<open>batch\<close> is the batch being filled. The final
  \<^verbatim>\<open>yield document_batch\<close> is reached only when the inner generator ends normally.
\<close>

fun batches :: "int \<Rightarrow> 'a list \<Rightarrow> 'a list \<Rightarrow> error option \<Rightarrow> 'a list list" where
  "batches n batch [] None = [batch]"
| "batches n batch [] (Some e) = []"
| "batches n batch (d # ds) e =
     (if int (length (batch @ [d])) \<ge> n
      then (batch @ [d]) # batches n [] ds e
      else batches n (batch @ [d]) ds e)"

text \<open>
  The retrieval operations are generators and read the connector only (no assignment
  to \<^verbatim>\<open>self\<close>): the model gives what a caller that drains them sees, the batches
  yielded, the exception that ended the run (if any) and the search requests made;
  \<open>None\<close> when the run never ends.
\<close>

definition load_from_state ::
  "utils \<Rightarrow> connector \<Rightarrow> (document list list \<times> error option \<times> request list) option" where
  "load_from_state u self =
     (let jql = get_jql_query self
      in case jira_client self of
           Inl e \<Rightarrow> Some ([], Some e, [])
         | Inr c \<Rightarrow>
             (case fetch_jira_issues_batch u c jql JIRA_FULL_PAGE_SIZE
                     (comment_email_blacklist u self) (Some (labels_to_skip self)) of
                None \<Rightarrow> None
              | Some (docs, e, log) \<Rightarrow> Some (batches (batch_size self) [] docs e, e, log)))"

text \<open>Lines 230 to 240 of \<^verbatim>\<open>poll_source\<close>: the query.\<close>

definition poll_source_jql :: "connector \<Rightarrow> nat \<Rightarrow> nat \<Rightarrow> error + string" where
  "poll_source_jql self start end' =
     (case fromtimestamp_utc start of
        Inl e \<Rightarrow> Inl e
      | Inr s \<Rightarrow>
          (case fromtimestamp_utc end' of
             Inl e \<Rightarrow> Inl e
           | Inr e \<Rightarrow>
               (let start_date_str = strftime_ymd_hm s;
                    end_date_str = strftime_ymd_hm e;
                    base_jql = get_jql_query self
                in Inr ((if base_jql \<noteq> [] then base_jql @ '' AND '' else []) @
                        ''updated >= '' @ [CHR 0x27] @ start_date_str @ [CHR 0x27] @
                        '' AND updated <= '' @ [CHR 0x27] @ end_date_str @ [CHR 0x27]))))"

definition poll_source ::
  "utils \<Rightarrow> connector \<Rightarrow> nat \<Rightarrow> nat \<Rightarrow>
   (document list list \<times> error option \<times> request list) option" where
  "poll_source u self start end' =
     (case poll_source_jql self start end' of
        Inl e \<Rightarrow> Some ([], Some e, [])
      | Inr jql \<Rightarrow>
          (case jira_client self of
             Inl e \<Rightarrow> Some ([], Some e, [])
           | Inr c \<Rightarrow>
               (case fetch_jira_issues_batch u c jql JIRA_FULL_PAGE_SIZE
                       (comment_email_blacklist u self) (Some (labels_to_skip self)) of
                  None \<Rightarrow> None
                | Some (docs, e, log) \<Rightarrow>
                    Some (batches (batch_size self) [] docs e, e, log))))"

text \<open>
  The loop body of \<^verbatim>\<open>retrieve_all_slim_documents\<close> up to the \<^verbatim>\<open>append\<close> (lines 272 to
  279), on the list of slim documents made so far.
\<close>

definition slim_step ::
  "utils \<Rightarrow> jira \<Rightarrow> slim_document list \<Rightarrow> issue \<Rightarrow> error + slim_document list" where
  "slim_step u c docs i =
     (case best_effort_get_field_from_issue u i ''key'' of
        Inl e \<Rightarrow> Inl (Propagated e)
      | Inr issue_key \<Rightarrow>
          (case build_jira_url u c issue_key of
             Inl e \<Rightarrow> Inl (Propagated e)
           | Inr url \<Rightarrow> Inr (docs @ [\<lparr>slim_id = url, perm_sync_data = None\<rparr>])))"

text \<open>
  \<^verbatim>\<open>retrieve_all_slim_documents\<close>; \<^verbatim>\<open>start\<close>, \<^verbatim>\<open>end\<close> and \<^verbatim>\<open>callback\<close> are optional
  arguments.
\<close>

definition retrieve_all_slim_documents ::
  "utils \<Rightarrow> connector \<Rightarrow> nat option \<Rightarrow> nat option \<Rightarrow> 'h option \<Rightarrow>
   (slim_document list list \<times> error option \<times> request list) option" where
  "retrieve_all_slim_documents u self start end' callback =
     (let jql = get_jql_query self
      in case jira_client self of
           Inl e \<Rightarrow> Some ([], Some e, [])
         | Inr c \<Rightarrow>
             (case paginate_jql_search c jql JIRA_SLIM_PAGE_SIZE (Some ''key'')
                     (slim_step u c) [] of
                None \<Rightarrow> None
              | Some (docs, e, log) \<Rightarrow> Some (batches JIRA_SLIM_PAGE_SIZE [] docs e, e, log)))"

text \<open>
  \<^verbatim>\<open>validate_connector_settings\<close>: the handler of the project branch (lines 294 to 314)
  and of the branch that lists the projects (lines 320 to 335).
\<close>

definition project_failure :: "string \<Rightarrow> exn \<Rightarrow> error" where
  "project_failure jira_project' e =
     (if status_code e = Some 401
      then CredentialExpiredError
             ''Jira credential appears to be expired or invalid (HTTP 401).''
      else if status_code e = Some 403
      then InsufficientPermissionsError
             ''Your Jira token does not have sufficient permissions for this project (HTTP 403).''
      else if status_code e = Some 404
      then ConnectorValidationError (''Jira project not found with key: '' @ jira_project')
      else if status_code e = Some 429
      then ConnectorValidationError
             ''Validation failed due to Jira rate-limits being exceeded. Please try again later.''
      else RuntimeError (''Unexpected Jira error during validation: '' @ exn_str e))"

definition projects_failure :: "exn \<Rightarrow> error" where
  "projects_failure e =
     (if status_code e = Some 401
      then CredentialExpiredError
             ''Jira credential appears to be expired or invalid (HTTP 401).''
      else if status_code e = Some 403
      then InsufficientPermissionsError
             ''Your Jira token does not have sufficient permissions to list projects (HTTP 403).''
      else if status_code e = Some 429
      then ConnectorValidationError
             ''Validation failed due to Jira rate-limits being exceeded. Please try again later.''
      else RuntimeError (''Unexpected Jira error during validation: '' @ exn_str e))"

definition validate_connector_settings :: "connector \<Rightarrow> error + unit" where
  "validate_connector_settings self =
     (case jira_client_attr self of
        None \<Rightarrow> Inl (ConnectorMissingCredentialError ''Jira'')
      | Some c \<Rightarrow>
          if has_project self
          then (case project c (the (jira_project self)) of
                  Inl e \<Rightarrow> Inl (project_failure (the (jira_project self)) e)
                | Inr r \<Rightarrow> Inr ())
          else (case projects c of
                  Inl e \<Rightarrow> Inl (projects_failure e)
                | Inr r \<Rightarrow> Inr ()))"

section \<open>Example data\<close>

text \<open>Concrete records, clients and collaborators, for the instances below.\<close>

definition example_issue ::
  "string \<Rightarrow> string list \<Rightarrow> string option \<Rightarrow> (string \<times> pyval) list \<Rightarrow> issue" where
  "example_issue k ls d others =
     \<lparr>key = k, summary = ''Summary'', description = d, raw_description = PyNone,
      labels = ls, updated = ''2024-01-01T00:00:00.000+0000'', other_fields = others\<rparr>"

text \<open>A client whose search serves the records \<open>rs\<close> page by page.\<close>

definition example_client :: "issue list \<Rightarrow> jira" where
  "example_client rs =
     \<lparr>search_issues = (\<lambda>jql startAt maxResults fields'.
        Inr (map IssueObj (take (nat maxResults) (drop (nat startAt) rs)))),
      client_info = ''https://jira.example.com'',
      project = (\<lambda>k. Inr ()),
      projects = Inr ()\<rparr>"

text \<open>A client whose every call raises \<open>e\<close>.\<close>

definition failing_client :: "exn \<Rightarrow> jira" where
  "failing_client e =
     \<lparr>search_issues = (\<lambda>jql startAt maxResults fields'. Inl e),
      client_info = ''https://jira.example.com'',
      project = (\<lambda>k. Inl e),
      projects = Inl e\<rparr>"

definition example_person :: "pyval \<Rightarrow> exn + basic_expert_info option" where
  "example_person v =
     (case v of
        PyObject attrs \<Rightarrow>
          (case map_of attrs ''displayName'' of
             Some (PyStr n) \<Rightarrow> Inr (Some (BasicExpertInfo (Some n) None))
           | _ \<Rightarrow> Inr None)
      | _ \<Rightarrow> Inl (Exn None ''AttributeError: get''))"

definition example_field :: "issue \<Rightarrow> string \<Rightarrow> exn + pyval" where
  "example_field i f =
     (if f = ''key'' then Inr (PyStr (key i))
      else if f = ''labels'' then Inr (PyList (labels i))
      else case map_of (other_fields i) f of Some v \<Rightarrow> Inr v | None \<Rightarrow> Inr PyNone)"

definition example_comments :: "issue \<Rightarrow> string list \<Rightarrow> exn + string list" where
  "example_comments i blacklist =
     (case map_of (other_fields i) ''comment'' of
        Some (PyList cs) \<Rightarrow> Inr cs
      | _ \<Rightarrow> Inr [])"

definition example_url :: "jira \<Rightarrow> pyval \<Rightarrow> exn + string" where
  "example_url c k =
     (case k of
        PyStr s \<Rightarrow> Inr (client_info c @ ''/browse/'' @ s)
      | _ \<Rightarrow> Inl (Exn None ''TypeError''))"

definition example_utils :: utils where
  "example_utils =
     \<lparr>build_jira_client = (\<lambda>creds base. Inr (example_client [])),
      extract_text_from_adf = (\<lambda>v. Inr []),
      get_comment_strs = example_comments,
      best_effort_get_field_from_issue = example_field,
      best_effort_basic_expert_info = example_person,
      build_jira_url = example_url,
      time_str_to_utc = (\<lambda>s. Inr \<lparr>year = 2024, month = 1, day = 1,
                                    hour = 0, minute = 0, second = 0\<rparr>),
      str_strip = (\<lambda>s. s),
      environ_JIRA_API_VERSION = None,
      INDEX_BATCH_SIZE = 2,
      JIRA_CONNECTOR_LABELS_TO_SKIP = [''secret''],
      JIRA_CONNECTOR_MAX_TICKET_SIZE = 20\<rparr>"

text \<open>A connector for project \<open>OPS\<close>, before and after its client is set.\<close>

definition example_connector :: connector where
  "example_connector =
     JiraConnector example_utils ''https://jira.example.com/'' (Some ''OPS'') None None None"

definition ready_connector :: "jira \<Rightarrow> connector" where
  "ready_connector c = example_connector\<lparr>jira_client_attr := Some c\<rparr>"

text \<open>
  The document of \<open>example_issue k ls d others\<close> under \<open>example_utils\<close>, with the content
  and the owners given.
\<close>

definition example_document ::
  "jira \<Rightarrow> string \<Rightarrow> string \<Rightarrow> basic_expert_info set option \<Rightarrow> document" where
  "example_document c k content owners =
     \<lparr>doc_id = client_info c @ ''/browse/'' @ k,
      sections = [\<lparr>section_link = client_info c @ ''/browse/'' @ k,
                   section_text = content\<rparr>],
      source = JIRA,
      semantic_identifier = k @ '': Summary'',
      title = k @ '' Summary'',
      doc_updated_at = \<lparr>year = 2024, month = 1, day = 1, hour = 0, minute = 0, second = 0\<rparr>,
      primary_owners = owners,
      metadata = []\<rparr>"

section \<open>Properties of the pager and of batching\<close>

lemma for_each_issue_state:
  assumes "\<And>s i s'. I s \<Longrightarrow> body s i = Inr s' \<Longrightarrow> I s'"
  shows "I s \<Longrightarrow> I (fst (for_each_issue body s objs))"
proof (induction objs arbitrary: s)
  case Nil
  then show ?case by simp
next
  case (Cons x objs)
  show ?case
  proof (cases x)
    case (IssueObj i)
    show ?thesis
    proof (cases "body s i")
      case (Inl e)
      with IssueObj Cons.prems show ?thesis by simp
    next
      case (Inr s')
      with assms Cons.prems have "I s'" by blast
      then have "I (fst (for_each_issue body s' objs))" by (rule Cons.IH)
      with IssueObj Inr show ?thesis by simp
    qed
  next
    case (OtherObj r)
    with Cons.prems show ?thesis by simp
  qed
qed

lemma for_each_issue_error:
  assumes "\<And>s i e. body s i = Inl e \<Longrightarrow> Q e" and "\<And>m. Q (Exception m)"
  shows "snd (for_each_issue body s objs) = Some e \<Longrightarrow> Q e"
proof (induction objs arbitrary: s)
  case Nil
  then show ?case by simp
next
  case (Cons x objs)
  show ?case
  proof (cases x)
    case (IssueObj i)
    show ?thesis
    proof (cases "body s i")
      case (Inl e')
      with IssueObj Cons.prems have "e' = e" by simp
      with Inl assms(1) show ?thesis by blast
    next
      case (Inr s')
      with IssueObj Cons.prems have "snd (for_each_issue body s' objs) = Some e" by simp
      then show ?thesis by (rule Cons.IH)
    qed
  next
    case (OtherObj r)
    with Cons.prems assms(2) show ?thesis by auto
  qed
qed

lemma paginate_loop_state:
  fixes body :: "'s \<Rightarrow> issue \<Rightarrow> error + 's"
  assumes run: "paginate_loop c jql P f body start s log = Some (s', err, log')"
    and pres: "\<And>s i s'. I s \<Longrightarrow> body s i = Inr s' \<Longrightarrow> I s'"
    and init: "I s"
  shows "I s'"
proof -
  let ?R = "\<lambda>(c :: jira) (jql :: string) (P :: int) (f :: string option)
              (body :: 's \<Rightarrow> issue \<Rightarrow> error + 's) (start :: int) (s :: 's) (log :: request list)
              (y :: 's \<times> error option \<times> request list).
              (\<forall>s i s'. I s \<longrightarrow> body s i = Inr s' \<longrightarrow> I s') \<longrightarrow> I s \<longrightarrow> I (fst y)"
  have "?R c jql P f body start s log (s', err, log')"
  proof (rule paginate_loop.raw_induct [where P = ?R, OF _ run], goal_cases)
    case (1 loop c jql P f body start s log y)
    show ?case
    proof (intro impI)
      assume pres: "\<forall>s i s'. I s \<longrightarrow> body s i = Inr s' \<longrightarrow> I s'" and init: "I s"
      have page: "I (fst (for_each_issue body s objs))" for objs
        using pres init by (intro for_each_issue_state [where I = I]) blast+
      show "I (fst y)"
      proof (cases "search_issues c jql start P f")
        case (Inl e)
        with 1(2) init show ?thesis by auto
      next
        case (Inr issues)
        obtain s1 e1 where fe: "for_each_issue body s issues = (s1, e1)" by force
        have s1: "I s1" using page [of issues] fe by simp
        show ?thesis
        proof (cases e1)
          case (Some e)
          with 1(2) Inr fe s1 show ?thesis by auto
        next
          case None
          show ?thesis
          proof (cases "int (length issues) < P")
            case True
            with 1(2) Inr fe None s1 show ?thesis by auto
          next
            case False
            with 1(2) Inr fe None
            have "loop c jql P f body (start + P) s1 (log @ [(jql, start, P, f)]) = Some y"
              by simp
            from 1(1) [OF this] pres s1 show ?thesis by blast
          qed
        qed
      qed
    qed
  qed
  with pres init show ?thesis by auto
qed

lemma paginate_loop_error:
  fixes body :: "'s \<Rightarrow> issue \<Rightarrow> error + 's"
  assumes run: "paginate_loop c jql P f body start s log = Some (s', Some e, log')"
    and body: "\<And>s i e. body s i = Inl e \<Longrightarrow> Q e"
    and exc: "\<And>m. Q (Exception m)" and prp: "\<And>x. Q (Propagated x)"
  shows "Q e"
proof -
  let ?R = "\<lambda>(c :: jira) (jql :: string) (P :: int) (f :: string option)
              (body :: 's \<Rightarrow> issue \<Rightarrow> error + 's) (start :: int) (s :: 's) (log :: request list)
              (y :: 's \<times> error option \<times> request list).
              (\<forall>s i e. body s i = Inl e \<longrightarrow> Q e) \<longrightarrow> (\<forall>e. fst (snd y) = Some e \<longrightarrow> Q e)"
  have "?R c jql P f body start s log (s', Some e, log')"
  proof (rule paginate_loop.raw_induct [where P = ?R, OF _ run], goal_cases)
    case (1 loop c jql P f body start s log y)
    show ?case
    proof (intro impI allI)
      fix e
      assume body: "\<forall>s i e. body s i = Inl e \<longrightarrow> Q e" and e: "fst (snd y) = Some e"
      show "Q e"
      proof (cases "search_issues c jql start P f")
        case (Inl x)
        with 1(2) have "y = (s, Some (Propagated x), log @ [(jql, start, P, f)])" by simp
        with e have "e = Propagated x" by simp
        then show ?thesis by (simp add: prp)
      next
        case (Inr issues)
        obtain s1 e1 where fe: "for_each_issue body s issues = (s1, e1)" by force
        show ?thesis
        proof (cases e1)
          case (Some e2)
          with 1(2) Inr fe have "y = (s1, Some e2, log @ [(jql, start, P, f)])" by simp
          with e have "e2 = e" by simp
          with Some fe have "snd (for_each_issue body s issues) = Some e" by simp
          moreover have "\<And>s i e. body s i = Inl e \<Longrightarrow> Q e" using body by blast
          ultimately show "Q e" using exc
            by (rule for_each_issue_error [where Q = Q and body = body, rotated 2])
        next
          case None
          show ?thesis
          proof (cases "int (length issues) < P")
            case True
            with 1(2) Inr fe None have "y = (s1, None, log @ [(jql, start, P, f)])" by simp
            with e show ?thesis by simp
          next
            case False
            with 1(2) Inr fe None
            have "loop c jql P f body (start + P) s1 (log @ [(jql, start, P, f)]) = Some y"
              by simp
            from 1(1) [OF this] have "(\<forall>s i e. body s i = Inl e \<longrightarrow> Q e) \<longrightarrow> (\<forall>e. fst (snd y) = Some e \<longrightarrow> Q e)" .
            with body e show ?thesis by blast
          qed
        qed
      qed
    qed
  qed
  moreover have "\<forall>s i e. body s i = Inl e \<longrightarrow> Q e" using body by blast
  ultimately show ?thesis by simp
qed

lemma paginate_loop_log:
  fixes body :: "'s \<Rightarrow> issue \<Rightarrow> error + 's"
  assumes run: "paginate_loop c jql P f body start s log = Some (s', err, log')"
  shows "\<exists>new. log' = log @ new \<and> (\<forall>r \<in> set new. \<exists>st. r = (jql, st, P, f))"
proof -
  let ?R = "\<lambda>(c :: jira) (jql :: string) (P :: int) (f :: string option)
              (body :: 's \<Rightarrow> issue \<Rightarrow> error + 's) (start :: int) (s :: 's) (log :: request list)
              (y :: 's \<times> error option \<times> request list).
              \<exists>new. snd (snd y) = log @ new \<and> (\<forall>r \<in> set new. \<exists>st. r = (jql, st, P, f))"
  have "?R c jql P f body start s log (s', err, log')"
  proof (rule paginate_loop.raw_induct [where P = ?R, OF _ run], goal_cases)
    case (1 loop c jql P f body start s log y)
    have one: "snd (snd y) = log @ [(jql, start, P, f)] \<Longrightarrow> ?case"
    proof -
      assume "snd (snd y) = log @ [(jql, start, P, f)]"
      then have "snd (snd y) = log @ [(jql, start, P, f)] \<and>
                 (\<forall>r \<in> set [(jql, start, P, f)]. \<exists>st. r = (jql, st, P, f))"
        by simp
      then show ?thesis by (rule exI)
    qed
    show ?case
    proof (cases "search_issues c jql start P f")
      case (Inl x)
      with 1(2) have "snd (snd y) = log @ [(jql, start, P, f)]" by auto
      then show ?thesis by (rule one)
    next
      case (Inr issues)
      obtain s1 e1 where fe: "for_each_issue body s issues = (s1, e1)" by force
      show ?thesis
      proof (cases e1)
        case (Some e2)
        with 1(2) Inr fe have "snd (snd y) = log @ [(jql, start, P, f)]" by auto
        then show ?thesis by (rule one)
      next
        case None
        show ?thesis
        proof (cases "int (length issues) < P")
          case True
          with 1(2) Inr fe None have "snd (snd y) = log @ [(jql, start, P, f)]" by auto
          then show ?thesis by (rule one)
        next
          case False
          with 1(2) Inr fe None
          have "loop c jql P f body (start + P) s1 (log @ [(jql, start, P, f)]) = Some y"
            by simp
          from 1(1) [OF this] obtain new where
            new: "snd (snd y) = (log @ [(jql, start, P, f)]) @ new"
              "\<forall>r \<in> set new. \<exists>st. r = (jql, st, P, f)"
            by blast
          have "snd (snd y) = log @ ((jql, start, P, f) # new) \<and>
                     (\<forall>r \<in> set ((jql, start, P, f) # new). \<exists>st. r = (jql, st, P, f))"
            using new by simp
          then show ?thesis by (rule exI)
        qed
      qed
    qed
  qed
  then show ?thesis by simp
qed

lemma for_each_issue_append:
  "for_each_issue body s (xs @ ys) =
     (case for_each_issue body s xs of
        (s1, None) \<Rightarrow> for_each_issue body s1 ys
      | (s1, Some e) \<Rightarrow> (s1, Some e))"
proof (induction xs arbitrary: s)
  case Nil
  show ?case by simp
next
  case (Cons x xs)
  show ?case
  proof (cases x)
    case (IssueObj i)
    with Cons show ?thesis by (cases "body s i") simp_all
  next
    case (OtherObj r)
    then show ?thesis by simp
  qed
qed

lemma for_each_issue_append_ok:
  assumes "for_each_issue body s (xs @ ys) = (s', None)"
  obtains s1 where "for_each_issue body s xs = (s1, None)"
    and "for_each_issue body s1 ys = (s', None)"
proof -
  obtain s1 e1 where fe: "for_each_issue body s xs = (s1, e1)" by force
  with assms have "e1 = None" 
    by (cases e1) (simp_all add: for_each_issue_append)
  with fe assms that show ?thesis by (simp add: for_each_issue_append)
qed

lemma paginate_loop_serves:
  assumes srv: "serves c jql f rs" and p: "0 < p"
  shows "n \<le> length rs \<Longrightarrow>
         for_each_issue body s (map IssueObj (drop n rs)) = (s', None) \<Longrightarrow>
         paginate_loop c jql (int p) f body (int n) s log =
           Some (s', None,
                 log @ map (\<lambda>k. (jql, int n + int k * int p, int p, f))
                         [0..<(length rs - n) div p + 1])"
proof (induction "length rs - n" arbitrary: n s log rule: less_induct)
  case less
  define page where "page = take p (drop n rs)"
  have search: "search_issues c jql (int n) (int p) f = Inr (map IssueObj page)"
    using srv by (simp add: serves_def page_def)
  have len: "length page = min p (length rs - n)"
    by (simp add: page_def min_def)
  show ?case
  proof (cases "length rs - n < p")
    case True
    then have all: "page = drop n rs" by (simp add: page_def)
    have zero: "(length rs - n) div p = 0" using True by simp
    have short: "int (length page) < int p" using len True by simp
    have fe: "for_each_issue body s (map IssueObj page) = (s', None)"
      using less.prems(2) all by simp
    show ?thesis
      apply (subst paginate_loop.simps)
      apply (simp only: search fe sum.case prod.case option.case length_map short if_True zero)
      apply simp
      done
  next
    case False
    then have ge: "p \<le> length rs - n" by simp
    have n': "n + p \<le> length rs" using ge less.prems by simp
    have smaller: "length rs - (n + p) < length rs - n" using p ge by simp
    have full: "\<not> int (length page) < int p" using len ge p by simp
    have items: "page @ drop (n + p) rs = drop n rs"
      unfolding page_def by (metis add.commute append_take_drop_id drop_drop)
    have "for_each_issue body s (map IssueObj page @ map IssueObj (drop (n + p) rs)) = (s', None)"
      using less.prems(2) items by (metis map_append)
    then obtain s1 where fe1: "for_each_issue body s (map IssueObj page) = (s1, None)"
      and fe2: "for_each_issue body s1 (map IssueObj (drop (n + p) rs)) = (s', None)"
      by (rule for_each_issue_append_ok)
    have IH: "paginate_loop c jql (int p) f body (int (n + p)) s1
                (log @ [(jql, int n, int p, f)]) =
              Some (s', None,
                (log @ [(jql, int n, int p, f)]) @
                map (\<lambda>k. (jql, int (n + p) + int k * int p, int p, f))
                  [0..<(length rs - (n + p)) div p + 1])"
      by (rule less.hyps [OF smaller n' fe2])
    have cnt: "(length rs - n) div p = Suc ((length rs - (n + p)) div p)"
      using le_div_geq [OF p ge] by (simp add: diff_diff_left)
    have step: "paginate_loop c jql (int p) f body (int n) s log =
          paginate_loop c jql (int p) f body (int n + int p) s1 (log @ [(jql, int n, int p, f)])"
      apply (subst paginate_loop.simps)
      apply (simp only: search fe1 sum.case prod.case option.case length_map full if_False)
      done
    have idx: "map (\<lambda>k. (jql, int n + int k * int p, int p, f)) [0..<Suc (Suc ((length rs - (n + p)) div p))]
         = (jql, int n, int p, f) # map (\<lambda>k. (jql, int (n + p) + int k * int p, int p, f))
                  [0..<(length rs - (n + p)) div p + 1]"
      by (subst map_upt_Suc) (simp add: algebra_simps del: upt_Suc)
    have "int n + int p = int (n + p)" by simp
    with step IH have "paginate_loop c jql (int p) f body (int n) s log = Some (s', None,
                (log @ [(jql, int n, int p, f)]) @
                map (\<lambda>k. (jql, int (n + p) + int k * int p, int p, f))
                  [0..<(length rs - (n + p)) div p + 1])" by (simp only:)
    then show ?thesis
      by (simp add: cnt idx del: upt_Suc)
  qed
qed

lemma paginate_jql_search_serves:
  assumes "serves c jql f rs" and "1 \<le> P"
    and "for_each_issue body s (map IssueObj rs) = (s', None)"
  shows "paginate_jql_search c jql P f body s =
           Some (s', None, map (\<lambda>k. (jql, int k * P, P, f)) [0..<length rs div nat P + 1])"
proof -
  have P: "P = int (nat P)" and pos: "0 < nat P" using assms(2) by simp_all
  have "paginate_loop c jql (int (nat P)) f body (int 0) s [] =
           Some (s', None, [] @ map (\<lambda>k. (jql, int 0 + int k * int (nat P), int (nat P), f))
               [0..<(length rs - 0) div nat P + 1])"
    by (rule paginate_loop_serves [OF assms(1) pos]) (simp_all add: assms(3))
  then show ?thesis
    unfolding paginate_jql_search_def using P by simp
qed

lemma for_each_issue_collect:
  "for_each_issue collect acc (map IssueObj page) = (acc @ page, None)"
  by (induction page arbitrary: acc) (simp_all add: collect_def)

lemma batches_concat: "concat (batches n batch ds None) = batch @ ds"
  by (induction ds arbitrary: batch) simp_all

lemma batches_nonempty: "batches n batch ds None \<noteq> []"
  by (induction ds arbitrary: batch) simp_all

lemma batches_length:
  assumes "0 < p"
  shows "length batch < p \<Longrightarrow>
         length (batches (int p) batch ds None) = (length batch + length ds) div p + 1"
proof (induction ds arbitrary: batch)
  case Nil
  then show ?case by simp
next
  case (Cons d ds)
  show ?case
  proof (cases "Suc (length batch) < p")
    case True
    then have "length (batches (int p) (batch @ [d]) ds None) =
               (length (batch @ [d]) + length ds) div p + 1"
      by (intro Cons.IH) simp
    with True show ?thesis by simp
  next
    case False
    with Cons.prems have eq: "Suc (length batch) = p" by simp
    have "length (batches (int p) [] ds None) = (length ([] :: 'a list) + length ds) div p + 1"
      using assms by (intro Cons.IH) simp
    moreover have "(length batch + length (d # ds)) div p = Suc (length ds div p)"
      using eq assms by (metis add_Suc_right add_Suc div_add_self1 length_Cons less_numeral_extra(3) plus_1_eq_Suc add.commute)
    ultimately show ?thesis using eq by simp
  qed
qed

lemma batches_full:
  assumes "0 < p"
  shows "length batch < p \<Longrightarrow> k < (length batch + length ds) div p \<Longrightarrow>
         length (batches (int p) batch ds None ! k) = p"
proof (induction ds arbitrary: batch k)
  case Nil
  then show ?case by simp
next
  case (Cons d ds)
  show ?case
  proof (cases "Suc (length batch) < p")
    case True
    then have "length (batches (int p) (batch @ [d]) ds None ! k) = p"
      using Cons.prems by (intro Cons.IH) simp_all
    with True show ?thesis by simp
  next
    case False
    with Cons.prems have eq: "Suc (length batch) = p" by simp
    have dv: "(length batch + length (d # ds)) div p = Suc (length ds div p)"
      using eq assms by (metis add_Suc_right add_Suc div_add_self1 length_Cons less_numeral_extra(3) plus_1_eq_Suc add.commute)
    show ?thesis
    proof (cases k)
      case 0
      with eq show ?thesis by simp
    next
      case (Suc j)
      with Cons.prems(2) dv have "j < (length ([] :: 'a list) + length ds) div p" by simp
      then have "length (batches (int p) [] ds None ! j) = p"
        using assms by (intro Cons.IH) simp_all
      with Suc eq show ?thesis by simp
    qed
  qed
qed

lemma batches_last:
  assumes "0 < p"
  shows "length batch < p \<Longrightarrow>
         length (last (batches (int p) batch ds None)) = (length batch + length ds) mod p"
proof (induction ds arbitrary: batch)
  case Nil
  then show ?case by simp
next
  case (Cons d ds)
  show ?case
  proof (cases "Suc (length batch) < p")
    case True
    then have "length (last (batches (int p) (batch @ [d]) ds None)) =
               (length (batch @ [d]) + length ds) mod p"
      by (intro Cons.IH) simp
    with True show ?thesis by simp
  next
    case False
    with Cons.prems have eq: "Suc (length batch) = p" by simp
    have ne: "batches (int p) [] ds None \<noteq> []"
      by (rule batches_nonempty)
    have "length (last (batches (int p) [] ds None)) = (length ([] :: 'a list) + length ds) mod p"
      using assms by (intro Cons.IH) simp
    moreover have "(length batch + length (d # ds)) mod p = length ds mod p"
      using eq by (metis add_Suc_right add_Suc length_Cons mod_add_self1 add.commute)
    ultimately show ?thesis using eq ne by simp
  qed
qed

lemma ceil_div_nat:
  fixes n p :: nat
  assumes p: "0 < p" and nd: "\<not> p dvd n"
  shows "n div p + 1 = (n + p - 1) div p"
proof -
  define q where "q = n div p"
  define r where "r = n mod p"
  have n: "n = p * q + r" by (simp add: q_def r_def)
  have r: "0 < r" "r < p" using nd p by (simp_all add: r_def dvd_eq_mod_eq_0)
  have e: "p * Suc q = p * q + p" by simp
  have e2: "p * Suc (Suc q) = p * q + p + p" by simp
  have lo: "p * Suc q \<le> n + p - 1" unfolding e n using r by linarith
  have hi: "n + p - 1 < p * Suc (Suc q)" unfolding e2 n using r by linarith
  have "(n + p - 1) div p = Suc q" using lo hi by (rule div_nat_eqI)
  then show ?thesis by (simp add: q_def)
qed

lemma paginate_jql_search_log:
  fixes body :: "'s \<Rightarrow> issue \<Rightarrow> error + 's"
  assumes "paginate_jql_search c jql P f body s = Some (s', err, log)"
  shows "\<forall>r \<in> set log. \<exists>st. r = (jql, st, P, f)"
proof -
  from assms have "paginate_loop c jql P f body 0 s [] = Some (s', err, log)"
    by (simp add: paginate_jql_search_def)
  from paginate_loop_log [OF this]
  obtain new where "log = [] @ new \<and> (\<forall>r \<in> set new. \<exists>st. r = (jql, st, P, f))" ..
  then show ?thesis by simp
qed

section \<open>Properties of the rendering\<close>







section \<open>Properties of the transformer\<close>

lemma transform_step_cases:
  assumes "transform_step u c blacklist skip docs i = Inr docs'"
  shows "docs' = docs \<or>
         (\<exists>d. docs' = docs @ [d] \<and> process_issue u c blacklist skip i = Inr (Some d))"
  using assms by (auto simp add: transform_step_def split: sum.splits option.splits)

lemma process_issue_passed_label_filter:
  assumes "process_issue u c blacklist skip i = Inr (Some d)"
  shows "\<not> has_label_to_skip skip i"
  using assms by (auto simp add: process_issue_def split: if_splits)

lemma build_document_text:
  assumes "build_document u c i content = Inr d"
  shows "map section_text (sections d) = [content]"
proof (cases "issue_metadata u i")
  case (Inl e)
  with assms show ?thesis by (simp add: build_document_def Let_def)
next
  case m: (Inr m)
  show ?thesis
  proof (cases "time_str_to_utc u (updated i)")
    case (Inl e)
    with assms m show ?thesis by (simp add: build_document_def Let_def)
  next
    case (Inr t)
    with assms m show ?thesis by (clarsimp simp add: build_document_def Let_def)
  qed
qed

lemma process_issue_text:
  assumes "process_issue u c blacklist skip i = Inr (Some d)"
  obtains descr comments where "issue_description u i = Inr descr"
    and "get_comment_strs u i blacklist = Inr comments"
    and "map section_text (sections d) = [ticket_content descr comments]"
proof -
  from assms obtain content where c: "assemble_content u blacklist i = Inr content"
    and b: "build_document u c i content = Inr d"
    by (auto simp add: process_issue_def split: if_splits sum.splits)
  from c obtain descr comments where "issue_description u i = Inr descr"
    and "get_comment_strs u i blacklist = Inr comments"
    and "content = ticket_content descr comments"
    by (auto simp add: assemble_content_def split: sum.splits)
  with build_document_text [OF b] that show ?thesis by simp
qed

lemma build_document_owners:
  assumes "build_document u c i content = Inr d"
  shows "primary_owners d = (if people u i = {} then None else Some (people u i))"
proof (cases "issue_metadata u i")
  case (Inl e)
  with assms show ?thesis by (simp add: build_document_def Let_def)
next
  case m: (Inr m)
  show ?thesis
  proof (cases "time_str_to_utc u (updated i)")
    case (Inl e)
    with assms m show ?thesis by (simp add: build_document_def Let_def)
  next
    case (Inr t)
    with assms m show ?thesis by (clarsimp simp add: build_document_def Let_def)
  qed
qed

lemma process_issue_owners:
  assumes "process_issue u c blacklist skip i = Inr (Some d)"
  shows "primary_owners d = (if people u i = {} then None else Some (people u i))"
proof -
  from assms obtain content where "build_document u c i content = Inr d"
    by (auto simp add: process_issue_def split: if_splits sum.splits)
  then show ?thesis by (rule build_document_owners)
qed

lemma process_issue_other_person_resolution:
  fixes g :: "pyval \<Rightarrow> exn + basic_expert_info option"
  assumes same: "\<And>i' f. f \<noteq> ''creator'' \<Longrightarrow> f \<noteq> ''assignee'' \<Longrightarrow>
                   h i' f = best_effort_get_field_from_issue u i' f"
  defines "u' \<equiv> u\<lparr>best_effort_get_field_from_issue := h, best_effort_basic_expert_info := g\<rparr>"
  shows "process_issue u' c blacklist skip i =
         map_sum id
           (map_option (\<lambda>d. d\<lparr>primary_owners :=
                                 (if people u' i = {} then None else Some (people u' i))\<rparr>))
           (process_issue u c blacklist skip i)"
proof -
  have descr: "issue_description u' i = issue_description u i"
    by (simp add: u'_def issue_description_def JIRA_API_VERSION_def)
  have comments: "get_comment_strs u' = get_comment_strs u" by (simp add: u'_def)
  have content: "assemble_content u' blacklist i = assemble_content u blacklist i"
    by (simp only: assemble_content_def descr comments)
  have name: "metadata_name u' i f m = metadata_name u i f m"
    if "f \<noteq> ''creator''" "f \<noteq> ''assignee''" for f m
    using that by (simp add: u'_def metadata_name_def same)
  have lab: "best_effort_get_field_from_issue u' i ''labels'' =
             best_effort_get_field_from_issue u i ''labels''"
    by (simp add: u'_def same)
  have meta: "issue_metadata u' i = issue_metadata u i"
    by (simp add: issue_metadata_def name lab cong: sum.case_cong)
  have tm: "time_str_to_utc u' = time_str_to_utc u" by (simp add: u'_def)
  have doc: "build_document u' c i content =
             map_sum id (\<lambda>d. d\<lparr>primary_owners :=
                                 (if people u' i = {} then None else Some (people u' i))\<rparr>)
               (build_document u c i content)" for content
    by (simp add: build_document_def Let_def meta tm split: sum.split)
  have mx: "JIRA_CONNECTOR_MAX_TICKET_SIZE u' = JIRA_CONNECTOR_MAX_TICKET_SIZE u"
    by (simp add: u'_def)
  show ?thesis
    by (simp add: process_issue_def content doc mx split: sum.split)
qed

lemma resolve_person_raises:
  "person_resolution_raises u i field \<Longrightarrow> resolve_person u i field = {}"
  by (auto simp add: person_resolution_raises_def resolve_person_def split: sum.splits)

lemma resolve_person_valid:
  "best_effort_get_field_from_issue u i field = Inr p \<Longrightarrow>
   best_effort_basic_expert_info u p = Inr (Some info) \<Longrightarrow>
   resolve_person u i field = {info}"
  by (simp add: resolve_person_def)

lemma metadata_name_error:
  "metadata_name u i f m = Inl e \<Longrightarrow> \<exists>x. e = Propagated x"
  by (auto simp add: metadata_name_def split: sum.splits if_splits)

lemma issue_metadata_error:
  "issue_metadata u i = Inl e \<Longrightarrow> \<exists>x. e = Propagated x"
  by (auto simp add: issue_metadata_def split: sum.splits dest: metadata_name_error)

lemma build_document_error:
  "build_document u c i content = Inl e \<Longrightarrow> \<exists>x. e = Propagated x"
  by (auto simp add: build_document_def Let_def split: sum.splits dest: issue_metadata_error)

lemma assemble_content_error:
  "assemble_content u blacklist i = Inl e \<Longrightarrow> \<exists>x. e = Propagated x"
  by (auto simp add: assemble_content_def issue_description_def split: sum.splits if_splits)

lemma process_issue_error:
  "process_issue u c blacklist skip i = Inl e \<Longrightarrow> \<exists>x. e = Propagated x"
  by (auto simp add: process_issue_def split: sum.splits if_splits
      dest: assemble_content_error build_document_error)

lemma transform_step_error:
  "transform_step u c blacklist skip docs i = Inl e \<Longrightarrow> \<exists>x. e = Propagated x"
  by (auto simp add: transform_step_def split: sum.splits option.splits
      dest: process_issue_error)

lemma slim_step_error:
  "slim_step u c docs i = Inl e \<Longrightarrow> \<exists>x. e = Propagated x"
  by (auto simp add: slim_step_def split: sum.splits)

section \<open>Where the missing credential can be raised\<close>

lemma paginate_jql_search_no_missing_credential:
  fixes body :: "'s \<Rightarrow> issue \<Rightarrow> error + 's"
  assumes run: "paginate_jql_search c jql P f body s = Some (s', Some e, log)"
    and body: "\<And>s i e. body s i = Inl e \<Longrightarrow> \<exists>x. e = Propagated x"
  shows "e \<noteq> ConnectorMissingCredentialError m"
proof -
  let ?Q = "\<lambda>e. e \<noteq> ConnectorMissingCredentialError m"
  from run have "paginate_loop c jql P f body 0 s [] = Some (s', Some e, log)"
    by (simp add: paginate_jql_search_def)
  then show "?Q e"
  proof (rule paginate_loop_error [where Q = ?Q])
    fix s i e
    assume "body s i = Inl e"
    from body [OF this] show "?Q e" by auto
  qed simp_all
qed

lemma fetch_no_missing_credential:
  assumes "fetch_jira_issues_batch u c jql P blacklist skip = Some (docs, Some e, log)"
  shows "e \<noteq> ConnectorMissingCredentialError m"
  using assms unfolding fetch_jira_issues_batch_def
  by (rule paginate_jql_search_no_missing_credential) (rule transform_step_error)

lemma load_from_state_ready:
  assumes "jira_client_attr self = Some c" and "load_from_state u self = Some (bs, err, log)"
  shows "err \<noteq> Some (ConnectorMissingCredentialError m)"
proof (cases err)
  case None
  then show ?thesis by simp
next
  case (Some e)
  with assms obtain docs where
    "fetch_jira_issues_batch u c (get_jql_query self) JIRA_FULL_PAGE_SIZE
       (comment_email_blacklist u self) (Some (labels_to_skip self)) = Some (docs, Some e, log)"
    by (auto simp add: load_from_state_def jira_client_def split: option.splits)
  from fetch_no_missing_credential [OF this] Some show ?thesis by simp
qed

lemma poll_source_ready:
  assumes "jira_client_attr self = Some c"
    and "poll_source u self start end' = Some (bs, err, log)"
  shows "err \<noteq> Some (ConnectorMissingCredentialError m)"
proof (cases "poll_source_jql self start end'")
  case (Inl e)
  then have "e = DatetimeRangeError"
    by (auto simp add: poll_source_jql_def fromtimestamp_utc_def Let_def
        split: sum.splits prod.splits if_splits)
  with Inl assms show ?thesis by (auto simp add: poll_source_def)
next
  case (Inr jql)
  show ?thesis
  proof (cases err)
    case None
    then show ?thesis by simp
  next
    case (Some e)
    with assms Inr obtain docs where
      "fetch_jira_issues_batch u c jql JIRA_FULL_PAGE_SIZE
         (comment_email_blacklist u self) (Some (labels_to_skip self)) = Some (docs, Some e, log)"
      by (auto simp add: poll_source_def jira_client_def split: option.splits)
    from fetch_no_missing_credential [OF this] Some show ?thesis by simp
  qed
qed

lemma retrieve_all_slim_documents_ready:
  assumes "jira_client_attr self = Some c"
    and "retrieve_all_slim_documents u self start end' callback = Some (bs, err, log)"
  shows "err \<noteq> Some (ConnectorMissingCredentialError m)"
proof (cases err)
  case None
  then show ?thesis by simp
next
  case (Some e)
  with assms obtain docs where
    "paginate_jql_search c (get_jql_query self) JIRA_SLIM_PAGE_SIZE (Some ''key'')
       (slim_step u c) [] = Some (docs, Some e, log)"
    by (auto simp add: retrieve_all_slim_documents_def jira_client_def split: option.splits)
  then have "e \<noteq> ConnectorMissingCredentialError m"
    by (rule paginate_jql_search_no_missing_credential) (rule slim_step_error)
  with Some show ?thesis by simp
qed

lemma validate_connector_settings_ready:
  assumes "jira_client_attr self = Some c"
  shows "validate_connector_settings self \<noteq> Inl (ConnectorMissingCredentialError m)"
  using assms
  by (auto simp add: validate_connector_settings_def project_failure_def projects_failure_def
      split: sum.splits if_splits)

section \<open>The examples, evaluated\<close>

lemma ready_connector_simps:
  "batch_size (ready_connector c) = 2"
  "jira_client_attr (ready_connector c) = Some c"
  "labels_to_skip (ready_connector c) = {''secret''}"
  "comment_email_blacklist example_utils (ready_connector c) = []"
  "jira_project (ready_connector c) = Some ''OPS''"
  "has_project (ready_connector c)"
  "get_jql_query (ready_connector c) = ''project = \"OPS\"''"
  by (simp_all add: ready_connector_def example_connector_def JiraConnector_def
      example_utils_def comment_email_blacklist_def has_project_def get_jql_query_def
      quoted_jira_project_def)

lemma example_connector_simps:
  "batch_size example_connector = 2"
  "jira_client_attr example_connector = None"
  "jira_project example_connector = Some ''OPS''"
  "has_project example_connector"
  "get_jql_query example_connector = ''project = \"OPS\"''"
  by (simp_all add: example_connector_def JiraConnector_def
      example_utils_def has_project_def get_jql_query_def quoted_jira_project_def)

lemma example_serves: "serves (example_client rs) jql fields' rs"
  by (simp add: serves_def example_client_def)

lemma example_process_issue:
  "process_issue example_utils c [] (Some {''secret''}) (example_issue k [] (Some ''Body'') []) =
     Inr (Some (example_document c k (''Body'' @ newline) None))"
  by (simp add: process_issue_def has_label_to_skip_def example_issue_def assemble_content_def
      issue_description_def JIRA_API_VERSION_def example_utils_def example_comments_def
      ticket_content_def newline_def build_document_def Let_def people_def resolve_person_def
      example_field_def example_person_def issue_metadata_def metadata_name_def
      example_document_def)

lemma example_assemble_content:
  "assemble_content example_utils blacklist (example_issue k ls d []) =
     Inr (format_optional d @ newline)"
  by (simp add: assemble_content_def issue_description_def JIRA_API_VERSION_def
      example_utils_def example_comments_def example_issue_def ticket_content_def)

lemma example_people_none: "people example_utils (example_issue k ls d []) = {}"
  by (simp add: people_def resolve_person_def example_utils_def example_field_def
      example_issue_def example_person_def)

lemma example_issue_metadata:
  "issue_metadata example_utils (example_issue k ls d []) =
     Inr (if ls = [] then [] else [(''label'', PyList ls)])"
  by (simp add: issue_metadata_def metadata_name_def example_utils_def example_field_def
      example_issue_def)

lemma example_build_document:
  "build_document example_utils c (example_issue k ls d []) content =
     Inr ((example_document c k content None)
            \<lparr>metadata := (if ls = [] then [] else [(''label'', PyList ls)])\<rparr>)"
  by (simp add: build_document_def Let_def example_people_none example_issue_metadata)
     (simp add: example_utils_def example_issue_def example_document_def)

lemma fromtimestamp_utc_example:
  "fromtimestamp_utc 1700000000 =
     Inr \<lparr>year = 2023, month = 11, day = 14, hour = 22, minute = 13, second = 20\<rparr>"
  "fromtimestamp_utc 1700003600 =
     Inr \<lparr>year = 2023, month = 11, day = 14, hour = 23, minute = 13, second = 20\<rparr>"
  by (simp_all add: fromtimestamp_utc_def ord2ymd_def Let_def days_before_month_def
      days_in_month_def MAXYEAR_def)


lemma fromtimestamp_utc_year_10000:
  "fromtimestamp_utc 253402300800 = Inl DatetimeRangeError"
  "fromtimestamp_utc 253402300799 =
     Inr \<lparr>year = 9999, month = 12, day = 31, hour = 23, minute = 59, second = 59\<rparr>"
  by (simp_all add: fromtimestamp_utc_def ord2ymd_def Let_def days_before_month_def
      days_in_month_def MAXYEAR_def)

section \<open>The claims\<close>



text \<open>
  C2. Let the batch size \<open>B\<close> be at least 1 and let the transformer, drained, yield the
  documents \<open>docs\<close> (\<open>M\<close> of them) and end without an exception. Then
  \<^verbatim>\<open>load_from_state\<close>, and \<^verbatim>\<open>poll_source\<close> for its own query, yield \<open>M div B\<close> batches of
  exactly \<open>B\<close> documents and then one last batch of \<open>M mod B\<close> documents, which is
  yielded also when it is empty; so there is always a batch, and the batches
  concatenated are \<open>docs\<close>.
\<close>

theorem batches_of_surviving_documents:
  assumes "1 \<le> batch_size self" and "jira_client_attr self = Some c"
    and "fetch_jira_issues_batch u c jql JIRA_FULL_PAGE_SIZE
           (comment_email_blacklist u self) (Some (labels_to_skip self)) =
         Some (docs, None, log)"
  shows "\<exists>bs. (jql = get_jql_query self \<longrightarrow> load_from_state u self = Some (bs, None, log))
            \<and> (poll_source_jql self start end' = Inr jql \<longrightarrow>
                 poll_source u self start end' = Some (bs, None, log))
            \<and> length bs = length docs div nat (batch_size self) + 1
            \<and> (\<forall>k < length docs div nat (batch_size self).
                  length (bs ! k) = nat (batch_size self))
            \<and> length (last bs) = length docs mod nat (batch_size self)
            \<and> concat bs = docs \<and> bs \<noteq> []"
proof -
  define p where "p = nat (batch_size self)"
  have p: "0 < p" and B: "batch_size self = int p" using assms(1) by (simp_all add: p_def)
  define bs where "bs = batches (int p) [] docs None"
  have empty: "length ([] :: document list) < p" using p by simp
  have 1: "jql = get_jql_query self \<longrightarrow> load_from_state u self = Some (bs, None, log)"
  proof
    assume "jql = get_jql_query self"
    with assms(2,3) show "load_from_state u self = Some (bs, None, log)"
      by (simp add: load_from_state_def jira_client_def bs_def B)
  qed
  have 2: "poll_source_jql self start end' = Inr jql \<longrightarrow>
             poll_source u self start end' = Some (bs, None, log)"
  proof
    assume "poll_source_jql self start end' = Inr jql"
    with assms(2,3) show "poll_source u self start end' = Some (bs, None, log)"
      by (simp add: poll_source_def jira_client_def bs_def B)
  qed
  have 3: "length bs = length docs div p + 1"
    using batches_length [OF p empty, of docs] by (simp add: bs_def)
  have 4: "\<forall>k < length docs div p. length (bs ! k) = p"
    using batches_full [OF p empty, of _ docs] by (simp add: bs_def)
  have 5: "length (last bs) = length docs mod p"
    using batches_last [OF p empty, of docs] by (simp add: bs_def)
  have 6: "concat bs = docs" by (simp add: bs_def batches_concat)
  have 7: "bs \<noteq> []" by (simp add: bs_def batches_nonempty)
  from 1 2 3 4 5 6 7 show ?thesis unfolding p_def [symmetric] by blast
qed

theorem batches_of_surviving_documents_witness:
  "\<exists>bs. load_from_state example_utils
           (ready_connector (example_client
              [example_issue ''OPS-1'' [] (Some ''Body'') [],
               example_issue ''OPS-2'' [] (Some ''Body'') [],
               example_issue ''OPS-3'' [] (Some ''Body'') []])) =
         Some (bs, None, [(''project = \"OPS\"'', 0, 50, None)])
       \<and> length bs = 2 \<and> length (bs ! 0) = 2 \<and> length (last bs) = 1
       \<and> map doc_id (concat bs) =
           [''https://jira.example.com/browse/OPS-1'', ''https://jira.example.com/browse/OPS-2'',
            ''https://jira.example.com/browse/OPS-3'']"
proof -
  let ?rs = "[example_issue ''OPS-1'' [] (Some ''Body'') [],
              example_issue ''OPS-2'' [] (Some ''Body'') [],
              example_issue ''OPS-3'' [] (Some ''Body'') []]"
  let ?c = "example_client ?rs"
  let ?self = "ready_connector ?c"
  let ?jql = "''project = \"OPS\"''"
  let ?docs = "[example_document ?c ''OPS-1'' (''Body'' @ newline) None,
                example_document ?c ''OPS-2'' (''Body'' @ newline) None,
                example_document ?c ''OPS-3'' (''Body'' @ newline) None]"
  have B: "1 \<le> batch_size ?self" by (simp add: ready_connector_simps)
  have ready: "jira_client_attr ?self = Some ?c" by (simp add: ready_connector_simps)
  have fe: "for_each_issue (transform_step example_utils ?c [] (Some {''secret''})) []
              (map IssueObj ?rs) = (?docs, None)"
    by (simp add: transform_step_def example_process_issue)
  have "paginate_jql_search ?c ?jql 50 None
          (transform_step example_utils ?c [] (Some {''secret''})) [] =
        Some (?docs, None, map (\<lambda>k. (?jql, int k * 50, 50, None)) [0..<length ?rs div nat 50 + 1])"
    by (rule paginate_jql_search_serves [OF example_serves _ fe]) simp
  then have run: "fetch_jira_issues_batch example_utils ?c ?jql JIRA_FULL_PAGE_SIZE
           (comment_email_blacklist example_utils ?self) (Some (labels_to_skip ?self)) =
         Some (?docs, None, [(?jql, 0, 50, None)])"
    by (simp add: fetch_jira_issues_batch_def JIRA_FULL_PAGE_SIZE_def ready_connector_simps)
  from batches_of_surviving_documents [OF B ready run, of 0 0]
  obtain bs where bs: "(?jql = get_jql_query ?self \<longrightarrow>
        load_from_state example_utils ?self = Some (bs, None, [(?jql, 0, 50, None)]))
      \<and> (poll_source_jql ?self 0 0 = Inr ?jql \<longrightarrow>
           poll_source example_utils ?self 0 0 = Some (bs, None, [(?jql, 0, 50, None)]))
      \<and> length bs = length ?docs div nat (batch_size ?self) + 1
      \<and> (\<forall>k < length ?docs div nat (batch_size ?self). length (bs ! k) = nat (batch_size ?self))
      \<and> length (last bs) = length ?docs mod nat (batch_size ?self)
      \<and> concat bs = ?docs \<and> bs \<noteq> []" ..
  note b1 = bs [THEN conjunct1]
  note b3 = bs [THEN conjunct2, THEN conjunct2, THEN conjunct1]
  note b4 = bs [THEN conjunct2, THEN conjunct2, THEN conjunct2, THEN conjunct1]
  note b5 = bs [THEN conjunct2, THEN conjunct2, THEN conjunct2, THEN conjunct2, THEN conjunct1]
  note b6 = bs [THEN conjunct2, THEN conjunct2, THEN conjunct2, THEN conjunct2, THEN conjunct2,
                THEN conjunct1]
  have 1: "load_from_state example_utils ?self = Some (bs, None, [(?jql, 0, 50, None)])"
    using b1 by (simp only: ready_connector_simps simp_thms)
  have 2: "length bs = 2" using b3 by (simp add: ready_connector_simps)
  have 3: "length (bs ! 0) = 2" using b4 by (simp add: ready_connector_simps)
  have 4: "length (last bs) = 1" using b5 by (simp add: ready_connector_simps)
  have 5: "map doc_id (concat bs) =
           [''https://jira.example.com/browse/OPS-1'', ''https://jira.example.com/browse/OPS-2'',
            ''https://jira.example.com/browse/OPS-3'']"
    unfolding b6 by (simp add: example_document_def example_client_def)
  show ?thesis
    by (rule exI [of _ bs]) (intro conjI 1 2 3 4 5)
qed

text \<open>
  C3. When the remote serves a result set \<open>rs\<close> of \<open>N\<close> records page by page and the page
  size \<open>P\<close> is at least 1, the pager, drained, ends; it yields exactly \<open>rs\<close> in order and
  raises nothing; its requests are at the offsets \<open>0, P, 2P, ...\<close>, each for at most \<open>P\<close>
  records, \<open>N div P + 1\<close> of them: it stops at the first page shorter than \<open>P\<close>, which is
  the page at offset \<open>(N div P) * P\<close>. That count is \<open>ceil(N/P)\<close> when \<open>P\<close> does not
  divide \<open>N\<close>.
\<close>

theorem pager_yields_result_set:
  assumes "serves c jql fields' rs" and "1 \<le> P"
  shows "paginate_jql_search c jql P fields' collect [] =
           Some (rs, None,
                 map (\<lambda>k. (jql, int k * P, P, fields')) [0..<length rs div nat P + 1])
         \<and> (\<not> nat P dvd length rs \<longrightarrow>
              length rs div nat P + 1 = (length rs + nat P - 1) div nat P)"
proof
  have "for_each_issue collect [] (map IssueObj rs) = ([] @ rs, None)"
    by (rule for_each_issue_collect)
  then have "for_each_issue collect [] (map IssueObj rs) = (rs, None)" by simp
  with assms show "paginate_jql_search c jql P fields' collect [] =
           Some (rs, None,
                 map (\<lambda>k. (jql, int k * P, P, fields')) [0..<length rs div nat P + 1])"
    by (rule paginate_jql_search_serves)
next
  show "\<not> nat P dvd length rs \<longrightarrow>
          length rs div nat P + 1 = (length rs + nat P - 1) div nat P"
  proof
    assume "\<not> nat P dvd length rs"
    moreover have "0 < nat P" using assms(2) by simp
    ultimately show "length rs div nat P + 1 = (length rs + nat P - 1) div nat P"
      by (intro ceil_div_nat)
  qed
qed

theorem pager_yields_result_set_witness:
  "paginate_jql_search
     (example_client [example_issue ''A-1'' [] None [], example_issue ''A-2'' [] None [],
                      example_issue ''A-3'' [] None [], example_issue ''A-4'' [] None []])
     ''project = A'' 2 None collect [] =
   Some ([example_issue ''A-1'' [] None [], example_issue ''A-2'' [] None [],
          example_issue ''A-3'' [] None [], example_issue ''A-4'' [] None []], None,
         [(''project = A'', 0, 2, None), (''project = A'', 2, 2, None),
          (''project = A'', 4, 2, None)])"
proof -
  let ?rs = "[example_issue ''A-1'' [] None [], example_issue ''A-2'' [] None [],
              example_issue ''A-3'' [] None [], example_issue ''A-4'' [] None []]"
  have srv: "serves (example_client ?rs) ''project = A'' None ?rs"
    by (simp add: serves_def example_client_def)
  have P: "(1::int) \<le> 2" by simp
  have len: "length ?rs = 4" by simp
  have idx: "[0..<4 div nat 2 + 1] = [0, 1, 2]"
    by (simp add: upt_conv_Cons)
  from pager_yields_result_set [OF srv P] show ?thesis
    by (simp only: len idx) simp
qed

text \<open>
  C4. Take a record that passes the label filter and whose content is assembled
  (description and comments are read without an exception). If the content has more
  bytes than \<^verbatim>\<open>JIRA_CONNECTOR_MAX_TICKET_SIZE\<close>, the record is skipped: nothing is
  yielded and nothing is raised. If it has at most that many bytes, in particular
  exactly that many, the record is not skipped: the transformer goes on to build its
  document, and yields it, with this content as its text, when the remaining
  extraction (metadata, time stamp) returns.
\<close>

theorem size_filter_boundary:
  assumes "\<not> has_label_to_skip skip i" and "assemble_content u blacklist i = Inr content"
  shows "(int (length content) > JIRA_CONNECTOR_MAX_TICKET_SIZE u \<longrightarrow>
            process_issue u c blacklist skip i = Inr None
          \<and> transform_step u c blacklist skip docs i = Inr docs)
       \<and> (int (length content) \<le> JIRA_CONNECTOR_MAX_TICKET_SIZE u \<longrightarrow>
            process_issue u c blacklist skip i \<noteq> Inr None
          \<and> (\<forall>d. build_document u c i content = Inr d \<longrightarrow>
                 process_issue u c blacklist skip i = Inr (Some d)
               \<and> transform_step u c blacklist skip docs i = Inr (docs @ [d])
               \<and> map section_text (sections d) = [content])
          \<and> (\<forall>e. build_document u c i content = Inl e \<longrightarrow>
                 process_issue u c blacklist skip i = Inl e))"
proof (intro conjI impI allI)
  assume "int (length content) > JIRA_CONNECTOR_MAX_TICKET_SIZE u"
  with assms show "process_issue u c blacklist skip i = Inr None"
    and "transform_step u c blacklist skip docs i = Inr docs"
    by (simp_all add: process_issue_def transform_step_def)
next
  assume le: "int (length content) \<le> JIRA_CONNECTOR_MAX_TICKET_SIZE u"
  with assms show "process_issue u c blacklist skip i \<noteq> Inr None"
    by (simp add: process_issue_def split: sum.split)
  {
    fix d
    assume d: "build_document u c i content = Inr d"
    with assms le show "process_issue u c blacklist skip i = Inr (Some d)"
      and "transform_step u c blacklist skip docs i = Inr (docs @ [d])"
      by (simp_all add: process_issue_def transform_step_def)
    from d show "map section_text (sections d) = [content]"
      by (auto simp add: build_document_def Let_def split: sum.splits)
  }
  {
    fix e
    assume "build_document u c i content = Inl e"
    with assms le show "process_issue u c blacklist skip i = Inl e"
      by (simp add: process_issue_def)
  }
qed

theorem size_filter_boundary_witness:
  "JIRA_CONNECTOR_MAX_TICKET_SIZE example_utils = 20
   \<and> process_issue example_utils (example_client []) [] (Some {''secret''})
        (example_issue ''OPS-1'' [] (Some ''0123456789012345678'') []) =
      Inr (Some (example_document (example_client []) ''OPS-1'' (''0123456789012345678'' @ newline) None))
   \<and> length (''0123456789012345678'' @ newline) = 20
   \<and> process_issue example_utils (example_client []) [] (Some {''secret''})
        (example_issue ''OPS-2'' [] (Some ''01234567890123456789'') []) = Inr None
   \<and> length (''01234567890123456789'' @ newline) = 21"
proof -
  let ?skip = "Some {''secret''}"
  let ?a = "example_issue ''OPS-1'' [] (Some ''0123456789012345678'') []"
  let ?b = "example_issue ''OPS-2'' [] (Some ''01234567890123456789'') []"
  have max: "JIRA_CONNECTOR_MAX_TICKET_SIZE example_utils = 20"
    by (simp add: example_utils_def)
  have la: "\<not> has_label_to_skip ?skip ?a" and lb: "\<not> has_label_to_skip ?skip ?b"
    by (simp_all add: has_label_to_skip_def example_issue_def)
  have ca: "assemble_content example_utils [] ?a = Inr (''0123456789012345678'' @ newline)"
    and cb: "assemble_content example_utils [] ?b = Inr (''01234567890123456789'' @ newline)"
    by (simp_all add: example_assemble_content)
  have na: "length (''0123456789012345678'' @ newline) = 20"
    and nb: "length (''01234567890123456789'' @ newline) = 21"
    by (simp_all add: newline_def)
  have da: "build_document example_utils (example_client []) ?a (''0123456789012345678'' @ newline) =
            Inr (example_document (example_client []) ''OPS-1'' (''0123456789012345678'' @ newline) None)"
    by (simp add: example_build_document example_document_def)
  have a: "process_issue example_utils (example_client []) [] ?skip ?a =
      Inr (Some (example_document (example_client []) ''OPS-1'' (''0123456789012345678'' @ newline) None))"
    using size_filter_boundary [OF la ca, of "example_client []" "[]", THEN conjunct2] da
    by (simp add: max newline_def)
  have b: "process_issue example_utils (example_client []) [] ?skip ?b = Inr None"
    using size_filter_boundary [OF lb cb, of "example_client []" "[]", THEN conjunct1]
    by (simp add: max newline_def)
  from max a na b nb show ?thesis by (intro conjI)
qed

text \<open>
  C5. \<^verbatim>\<open>validate_connector_settings\<close> on a connector with a client. With a project
  configured it asks for the project: status 401 raises \<open>CredentialExpiredError\<close>, 403
  \<open>InsufficientPermissionsError\<close>, 404 \<open>ConnectorValidationError\<close> with the project key in
  the message, 429 \<open>ConnectorValidationError\<close>, any other failure \<open>RuntimeError\<close> with the
  original message; a successful answer returns. With no project configured it lists
  the projects: 401, 403 and 429 are mapped as before, and every other failure,
  status 404 included, raises \<open>RuntimeError\<close> with the original message.
\<close>

theorem validation_status_mapping:
  assumes "jira_client_attr self = Some c"
  shows "(has_project self \<longrightarrow>
           (\<forall>e. project c (the (jira_project self)) = Inl e \<longrightarrow>
              (status_code e = Some 401 \<longrightarrow>
                 (\<exists>m. validate_connector_settings self = Inl (CredentialExpiredError m)))
            \<and> (status_code e = Some 403 \<longrightarrow>
                 (\<exists>m. validate_connector_settings self = Inl (InsufficientPermissionsError m)))
            \<and> (status_code e = Some 404 \<longrightarrow>
                 validate_connector_settings self =
                   Inl (ConnectorValidationError
                          (''Jira project not found with key: '' @ the (jira_project self))))
            \<and> (status_code e = Some 429 \<longrightarrow>
                 (\<exists>m. validate_connector_settings self = Inl (ConnectorValidationError m)))
            \<and> (status_code e \<notin> {Some 401, Some 403, Some 404, Some 429} \<longrightarrow>
                 validate_connector_settings self =
                   Inl (RuntimeError (''Unexpected Jira error during validation: '' @ exn_str e))))
         \<and> (\<forall>r. project c (the (jira_project self)) = Inr r \<longrightarrow>
                validate_connector_settings self = Inr ()))
       \<and> (\<not> has_project self \<longrightarrow>
           (\<forall>e. projects c = Inl e \<longrightarrow>
              (status_code e = Some 401 \<longrightarrow>
                 (\<exists>m. validate_connector_settings self = Inl (CredentialExpiredError m)))
            \<and> (status_code e = Some 403 \<longrightarrow>
                 (\<exists>m. validate_connector_settings self = Inl (InsufficientPermissionsError m)))
            \<and> (status_code e = Some 429 \<longrightarrow>
                 (\<exists>m. validate_connector_settings self = Inl (ConnectorValidationError m)))
            \<and> (status_code e \<notin> {Some 401, Some 403, Some 429} \<longrightarrow>
                 validate_connector_settings self =
                   Inl (RuntimeError (''Unexpected Jira error during validation: '' @ exn_str e))))
         \<and> (\<forall>r. projects c = Inr r \<longrightarrow> validate_connector_settings self = Inr ()))"
proof (intro conjI impI allI)
  fix e
  assume p: "has_project self" and f: "project c (the (jira_project self)) = Inl e"
  from assms p f have v: "validate_connector_settings self =
      Inl (project_failure (the (jira_project self)) e)"
    by (simp add: validate_connector_settings_def)
  {
    assume "status_code e = Some 401"
    then show "\<exists>m. validate_connector_settings self = Inl (CredentialExpiredError m)"
      by (simp add: v project_failure_def)
  }
  {
    assume "status_code e = Some 403"
    then show "\<exists>m. validate_connector_settings self = Inl (InsufficientPermissionsError m)"
      by (simp add: v project_failure_def)
  }
  {
    assume "status_code e = Some 404"
    then show "validate_connector_settings self =
                   Inl (ConnectorValidationError
                          (''Jira project not found with key: '' @ the (jira_project self)))"
      by (simp add: v project_failure_def)
  }
  {
    assume "status_code e = Some 429"
    then show "\<exists>m. validate_connector_settings self = Inl (ConnectorValidationError m)"
      by (simp add: v project_failure_def)
  }
  {
    assume "status_code e \<notin> {Some 401, Some 403, Some 404, Some 429}"
    then show "validate_connector_settings self =
                   Inl (RuntimeError (''Unexpected Jira error during validation: '' @ exn_str e))"
      by (simp add: v project_failure_def)
  }
next
  fix r
  assume "has_project self" and "project c (the (jira_project self)) = Inr r"
  with assms show "validate_connector_settings self = Inr ()"
    by (simp add: validate_connector_settings_def)
next
  fix e
  assume p: "\<not> has_project self" and f: "projects c = Inl e"
  from assms p f have v: "validate_connector_settings self = Inl (projects_failure e)"
    by (simp add: validate_connector_settings_def)
  {
    assume "status_code e = Some 401"
    then show "\<exists>m. validate_connector_settings self = Inl (CredentialExpiredError m)"
      by (simp add: v projects_failure_def)
  }
  {
    assume "status_code e = Some 403"
    then show "\<exists>m. validate_connector_settings self = Inl (InsufficientPermissionsError m)"
      by (simp add: v projects_failure_def)
  }
  {
    assume "status_code e = Some 429"
    then show "\<exists>m. validate_connector_settings self = Inl (ConnectorValidationError m)"
      by (simp add: v projects_failure_def)
  }
  {
    assume "status_code e \<notin> {Some 401, Some 403, Some 429}"
    then show "validate_connector_settings self =
                   Inl (RuntimeError (''Unexpected Jira error during validation: '' @ exn_str e))"
      by (simp add: v projects_failure_def)
  }
next
  fix r
  assume "\<not> has_project self" and "projects c = Inr r"
  with assms show "validate_connector_settings self = Inr ()"
    by (simp add: validate_connector_settings_def)
qed

theorem validation_status_mapping_witness:
  "validate_connector_settings (ready_connector (failing_client (Exn (Some 404) ''Not Found''))) =
     Inl (ConnectorValidationError ''Jira project not found with key: OPS'')
   \<and> validate_connector_settings (ready_connector (example_client [])) = Inr ()"
proof
  let ?e = "Exn (Some 404) ''Not Found''"
  let ?self = "ready_connector (failing_client ?e)"
  have ready: "jira_client_attr ?self = Some (failing_client ?e)"
    by (simp add: ready_connector_simps)
  have p: "has_project ?self" by (simp add: ready_connector_simps)
  have f: "project (failing_client ?e) (the (jira_project ?self)) = Inl ?e"
    by (simp add: failing_client_def)
  have s: "status_code ?e = Some 404" by simp
  from validation_status_mapping [OF ready, THEN conjunct1, THEN mp, OF p, THEN conjunct1,
      THEN spec, THEN mp, OF f, THEN conjunct2, THEN conjunct2, THEN conjunct1, THEN mp, OF s]
  show "validate_connector_settings ?self =
     Inl (ConnectorValidationError ''Jira project not found with key: OPS'')"
    by (simp add: ready_connector_simps)
next
  let ?self = "ready_connector (example_client [])"
  have ready: "jira_client_attr ?self = Some (example_client [])"
    by (simp add: ready_connector_simps)
  have p: "has_project ?self" by (simp add: ready_connector_simps)
  have f: "project (example_client []) (the (jira_project ?self)) = Inr ()"
    by (simp add: example_client_def)
  from validation_status_mapping [OF ready, THEN conjunct1, THEN mp, OF p, THEN conjunct2,
      THEN spec, THEN mp, OF f]
  show "validate_connector_settings ?self = Inr ()" .
qed

text \<open>
  C5, as stated for every configuration, fails: with no project configured, status 404
  is not a \<open>ConnectorValidationError\<close>; it falls through to the \<open>RuntimeError\<close>.
\<close>

theorem validation_404_without_project:
  "validate_connector_settings
     ((JiraConnector example_utils ''https://jira.example.com'' None None None None)
        \<lparr>jira_client_attr := Some (failing_client (Exn (Some 404) ''Not Found''))\<rparr>) =
   Inl (RuntimeError ''Unexpected Jira error during validation: Not Found'')"
  by (simp add: validate_connector_settings_def JiraConnector_def has_project_def
      failing_client_def projects_failure_def)

text \<open>
  C6. On a connector without a client, \<^verbatim>\<open>load_from_state\<close>,
  \<^verbatim>\<open>retrieve_all_slim_documents\<close> and \<^verbatim>\<open>validate_connector_settings\<close> raise
  \<open>ConnectorMissingCredentialError\<close> before any request is made, and so does
  \<^verbatim>\<open>poll_source\<close> when both of its bounds can be rendered. These operations read the
  connector and assign nothing, so it is the same afterwards; \<^verbatim>\<open>load_credentials\<close>
  changes it only when it succeeds, and then it sets the client: from then on none of
  the four operations raises \<open>ConnectorMissingCredentialError\<close>.
\<close>

theorem missing_credentials:
  assumes "jira_client_attr self = None"
  shows "load_from_state u self = Some ([], Some (ConnectorMissingCredentialError ''Jira''), [])
       \<and> ((\<exists>jql. poll_source_jql self start end' = Inr jql) \<longrightarrow>
            poll_source u self start end' =
              Some ([], Some (ConnectorMissingCredentialError ''Jira''), []))
       \<and> retrieve_all_slim_documents u self slim_start slim_end callback =
            Some ([], Some (ConnectorMissingCredentialError ''Jira''), [])
       \<and> validate_connector_settings self = Inl (ConnectorMissingCredentialError ''Jira'')
       \<and> (\<forall>e self'. load_credentials u self creds = (Inl e, self') \<longrightarrow> self' = self)
       \<and> (\<forall>self'. load_credentials u self creds = (Inr (), self') \<longrightarrow>
            jira_client_attr self' \<noteq> None
          \<and> (\<forall>bs err log m. load_from_state u self' = Some (bs, err, log) \<longrightarrow>
                err \<noteq> Some (ConnectorMissingCredentialError m))
          \<and> (\<forall>bs err log m. poll_source u self' start end' = Some (bs, err, log) \<longrightarrow>
                err \<noteq> Some (ConnectorMissingCredentialError m))
          \<and> (\<forall>bs err log m.
                retrieve_all_slim_documents u self' slim_start slim_end callback =
                  Some (bs, err, log) \<longrightarrow>
                err \<noteq> Some (ConnectorMissingCredentialError m))
          \<and> (\<forall>m. validate_connector_settings self' \<noteq>
                    Inl (ConnectorMissingCredentialError m)))"
proof (intro conjI impI allI)
  show "load_from_state u self = Some ([], Some (ConnectorMissingCredentialError ''Jira''), [])"
    using assms by (simp add: load_from_state_def jira_client_def)
next
  assume "\<exists>jql. poll_source_jql self start end' = Inr jql"
  then obtain jql where "poll_source_jql self start end' = Inr jql" ..
  with assms show "poll_source u self start end' =
              Some ([], Some (ConnectorMissingCredentialError ''Jira''), [])"
    by (simp add: poll_source_def jira_client_def)
next
  show "retrieve_all_slim_documents u self slim_start slim_end callback =
            Some ([], Some (ConnectorMissingCredentialError ''Jira''), [])"
    using assms by (simp add: retrieve_all_slim_documents_def jira_client_def)
next
  show "validate_connector_settings self = Inl (ConnectorMissingCredentialError ''Jira'')"
    using assms by (simp add: validate_connector_settings_def)
next
  fix e self'
  assume "load_credentials u self creds = (Inl e, self')"
  then show "self' = self"
    by (auto simp add: load_credentials_def split: sum.splits)
next
  fix self'
  assume l: "load_credentials u self creds = (Inr (), self')"
  then obtain c where c: "jira_client_attr self' = Some c"
    by (auto simp add: load_credentials_def split: sum.splits)
  then show "jira_client_attr self' \<noteq> None" by simp
  {
    fix bs err log m
    assume "load_from_state u self' = Some (bs, err, log)"
    with c show "err \<noteq> Some (ConnectorMissingCredentialError m)"
      by (rule load_from_state_ready)
  }
  {
    fix bs err log m
    assume "poll_source u self' start end' = Some (bs, err, log)"
    with c show "err \<noteq> Some (ConnectorMissingCredentialError m)"
      by (rule poll_source_ready)
  }
  {
    fix bs err log m
    assume "retrieve_all_slim_documents u self' slim_start slim_end callback =
              Some (bs, err, log)"
    with c show "err \<noteq> Some (ConnectorMissingCredentialError m)"
      by (rule retrieve_all_slim_documents_ready)
  }
  {
    fix m
    from c show "validate_connector_settings self' \<noteq> Inl (ConnectorMissingCredentialError m)"
      by (rule validate_connector_settings_ready)
  }
qed

theorem missing_credentials_witness:
  "load_from_state example_utils example_connector =
     Some ([], Some (ConnectorMissingCredentialError ''Jira''), [])
   \<and> poll_source example_utils example_connector 1700000000 1700003600 =
     Some ([], Some (ConnectorMissingCredentialError ''Jira''), [])
   \<and> validate_connector_settings example_connector =
     Inl (ConnectorMissingCredentialError ''Jira'')
   \<and> load_credentials example_utils example_connector [] =
       (Inr (), ready_connector (example_client []))
   \<and> validate_connector_settings (ready_connector (example_client [])) \<noteq>
     Inl (ConnectorMissingCredentialError ''Jira'')"
proof -
  have none: "jira_client_attr example_connector = None"
    by (simp add: example_connector_simps)
  note t = missing_credentials [OF none, where u = example_utils and start = 1700000000
      and end' = 1700003600 and creds = "[]" and slim_start = None and slim_end = None
      and callback = "None :: unit option"]
  have jql: "\<exists>jql. poll_source_jql example_connector 1700000000 1700003600 = Inr jql"
    by (simp add: poll_source_jql_def fromtimestamp_utc_example Let_def)
  have l: "load_credentials example_utils example_connector [] =
             (Inr (), ready_connector (example_client []))"
    by (simp add: load_credentials_def ready_connector_def) (simp add: example_utils_def)
  note ready = t [THEN conjunct2, THEN conjunct2, THEN conjunct2, THEN conjunct2, THEN conjunct2,
      THEN spec, THEN mp, OF l]
  from t [THEN conjunct1]
    t [THEN conjunct2, THEN conjunct1, THEN mp, OF jql]
    t [THEN conjunct2, THEN conjunct2, THEN conjunct2, THEN conjunct1]
    l
    ready [THEN conjunct2, THEN conjunct2, THEN conjunct2, THEN conjunct2, THEN spec]
  show ?thesis by (intro conjI)
qed

text \<open>
  C6, as stated for every call of \<^verbatim>\<open>poll_source\<close>, fails: with a bound past year 9999
  the query cannot be built, and \<^verbatim>\<open>poll_source\<close> ends with the error of
  \<^verbatim>\<open>datetime.fromtimestamp\<close>, raised before the client is looked at.
\<close>

theorem poll_source_out_of_range_without_client:
  "jira_client_attr example_connector = None
   \<and> poll_source example_utils example_connector 253402300800 253402300800 =
       Some ([], Some DatetimeRangeError, [])"
  by (simp add: example_connector_simps poll_source_def poll_source_jql_def
      fromtimestamp_utc_year_10000)

text \<open>
  C7. With a set \<open>skip\<close> of labels to skip: a record that carries one of them is skipped
  (nothing is yielded for it, nothing is raised), and every document the transformer
  yields comes from a record that carries none of them. A record that carries none of
  them is treated as if there were no label filter: its content is assembled and
  measured. Labels are compared as strings, so \<open>secret\<close> does not match \<open>Secret\<close>.
\<close>

theorem label_filter:
  "(skip \<noteq> {} \<and> skip \<inter> set (labels i) \<noteq> {} \<longrightarrow>
      process_issue u c blacklist (Some skip) i = Inr None
    \<and> transform_step u c blacklist (Some skip) docs i = Inr docs)
   \<and> (skip \<inter> set (labels i) = {} \<longrightarrow>
        process_issue u c blacklist (Some skip) i = process_issue u c blacklist None i
      \<and> process_issue u c blacklist (Some skip) i =
          (case assemble_content u blacklist i of
             Inl e \<Rightarrow> Inl e
           | Inr content \<Rightarrow>
               if int (length content) > JIRA_CONNECTOR_MAX_TICKET_SIZE u then Inr None
               else map_sum id Some (build_document u c i content)))
   \<and> (\<forall>yielded err log.
        fetch_jira_issues_batch u c jql page_size blacklist (Some skip) =
          Some (yielded, err, log) \<longrightarrow>
        (\<forall>d \<in> set yielded. \<exists>i'. skip \<inter> set (labels i') = {} \<and>
           process_issue u c blacklist (Some skip) i' = Inr (Some d)))
   \<and> \<not> has_label_to_skip (Some {''Secret''}) (i\<lparr>labels := [''secret'']\<rparr>)"
proof (intro conjI impI allI)
  assume "skip \<noteq> {} \<and> skip \<inter> set (labels i) \<noteq> {}"
  then have "has_label_to_skip (Some skip) i"
    by (auto simp add: has_label_to_skip_def)
  then show "process_issue u c blacklist (Some skip) i = Inr None"
    and "transform_step u c blacklist (Some skip) docs i = Inr docs"
    by (simp_all add: process_issue_def transform_step_def)
next
  assume "skip \<inter> set (labels i) = {}"
  then have no: "\<not> has_label_to_skip (Some skip) i"
    by (auto simp add: has_label_to_skip_def)
  have none: "\<not> has_label_to_skip None i" by (simp add: has_label_to_skip_def)
  from no none
  show "process_issue u c blacklist (Some skip) i = process_issue u c blacklist None i"
    by (simp add: process_issue_def)
  from no show "process_issue u c blacklist (Some skip) i =
          (case assemble_content u blacklist i of
             Inl e \<Rightarrow> Inl e
           | Inr content \<Rightarrow>
               if int (length content) > JIRA_CONNECTOR_MAX_TICKET_SIZE u then Inr None
               else map_sum id Some (build_document u c i content))"
    by (simp add: process_issue_def split: sum.split)
next
  fix yielded err log
  assume "fetch_jira_issues_batch u c jql page_size blacklist (Some skip) =
          Some (yielded, err, log)"
  then have run: "paginate_loop c jql page_size None
                    (transform_step u c blacklist (Some skip)) 0 [] [] =
                  Some (yielded, err, log)"
    by (simp add: fetch_jira_issues_batch_def paginate_jql_search_def)
  let ?I = "\<lambda>ds. \<forall>d \<in> set ds. \<exists>i'. skip \<inter> set (labels i') = {} \<and>
              process_issue u c blacklist (Some skip) i' = Inr (Some d)"
  have "?I yielded"
  proof (rule paginate_loop_state [OF run, where I = ?I])
    show "?I []" by simp
  next
    fix ds i' ds'
    assume inv: "?I ds"
      and step: "transform_step u c blacklist (Some skip) ds i' = Inr ds'"
    from transform_step_cases [OF step] show "?I ds'"
    proof
      assume "ds' = ds"
      with inv show ?thesis by simp
    next
      assume "\<exists>d. ds' = ds @ [d] \<and> process_issue u c blacklist (Some skip) i' = Inr (Some d)"
      then obtain d where d: "ds' = ds @ [d]"
        and p: "process_issue u c blacklist (Some skip) i' = Inr (Some d)" by blast
      from process_issue_passed_label_filter [OF p]
      have "skip \<inter> set (labels i') = {}"
        by (auto simp add: has_label_to_skip_def)
      with p have "\<exists>i'. skip \<inter> set (labels i') = {} \<and>
           process_issue u c blacklist (Some skip) i' = Inr (Some d)" by blast
      with inv d show ?thesis by simp
    qed
  qed
  then show "\<forall>d \<in> set yielded. \<exists>i'. skip \<inter> set (labels i') = {} \<and>
           process_issue u c blacklist (Some skip) i' = Inr (Some d)" .
next
  show "\<not> has_label_to_skip (Some {''Secret''}) (i\<lparr>labels := [''secret'']\<rparr>)"
    by (simp add: has_label_to_skip_def)
qed

theorem label_filter_witness:
  "process_issue example_utils (example_client []) [] (Some {''secret''})
     (example_issue ''OPS-1'' [''ui'', ''secret''] (Some ''Body'') []) = Inr None
   \<and> process_issue example_utils (example_client []) [] (Some {''secret''})
       (example_issue ''OPS-2'' [''Secret''] (Some ''Body'') []) =
     Inr (Some ((example_document (example_client []) ''OPS-2'' (''Body'' @ newline) None)
                  \<lparr>metadata := [(''label'', PyList [''Secret''])]\<rparr>))"
proof
  let ?c = "example_client []"
  let ?a = "example_issue ''OPS-1'' [''ui'', ''secret''] (Some ''Body'') []"
  let ?b = "example_issue ''OPS-2'' [''Secret''] (Some ''Body'') []"
  have a: "{''secret''} \<noteq> {} \<and> {''secret''} \<inter> set (labels ?a) \<noteq> {}"
    by (simp add: example_issue_def)
  from label_filter [of "{''secret''}" ?a example_utils ?c "[]", THEN conjunct1, THEN mp, OF a,
      THEN conjunct1]
  show "process_issue example_utils ?c [] (Some {''secret''}) ?a = Inr None" .
  have b: "{''secret''} \<inter> set (labels ?b) = {}"
    by (simp add: example_issue_def)
  have len: "\<not> int (length (''Body'' @ newline)) > JIRA_CONNECTOR_MAX_TICKET_SIZE example_utils"
    by (simp add: example_utils_def newline_def)
  from label_filter [of "{''secret''}" ?b example_utils ?c "[]", THEN conjunct2, THEN conjunct1,
      THEN mp, OF b, THEN conjunct2]
  have "process_issue example_utils ?c [] (Some {''secret''}) ?b =
          (case assemble_content example_utils [] ?b of
             Inl e \<Rightarrow> Inl e
           | Inr content \<Rightarrow>
               if int (length content) > JIRA_CONNECTOR_MAX_TICKET_SIZE example_utils
               then Inr None
               else map_sum id Some (build_document example_utils ?c ?b content))" .
  then show "process_issue example_utils ?c [] (Some {''secret''}) ?b =
     Inr (Some ((example_document ?c ''OPS-2'' (''Body'' @ newline) None)
                  \<lparr>metadata := [(''label'', PyList [''Secret''])]\<rparr>))"
    using len by (simp add: example_assemble_content example_build_document)
qed

text \<open>
  C8. \<^verbatim>\<open>retrieve_all_slim_documents\<close> does not use its time bounds (nor its callback):
  with any bounds its run is the run without bounds. Every search request it makes
  carries the scope-only query, asks for the field \<open>key\<close> only and for at most 500
  records. When the run ends normally, the batches are full batches of 500 slim
  documents followed by one last batch of fewer than 500, possibly none.
\<close>

theorem slim_listing_ignores_bounds:
  "retrieve_all_slim_documents u self start end' (callback :: 'h option) =
     retrieve_all_slim_documents u self None None (None :: 'h option)
   \<and> (\<forall>bs err log.
        retrieve_all_slim_documents u self start end' callback = Some (bs, err, log) \<longrightarrow>
        (\<forall>r \<in> set log. \<exists>startAt. r = (get_jql_query self, startAt, 500, Some ''key'')))
   \<and> (\<forall>bs log.
        retrieve_all_slim_documents u self start end' callback = Some (bs, None, log) \<longrightarrow>
        length bs = length (concat bs) div 500 + 1
      \<and> (\<forall>k < length (concat bs) div 500. length (bs ! k) = 500)
      \<and> length (last bs) = length (concat bs) mod 500)"
proof (intro conjI allI impI)
  show "retrieve_all_slim_documents u self start end' callback =
     retrieve_all_slim_documents u self None None (None :: 'h option)"
    by (simp add: retrieve_all_slim_documents_def)
next
  fix bs err log
  assume run: "retrieve_all_slim_documents u self start end' callback = Some (bs, err, log)"
  show "\<forall>r \<in> set log. \<exists>startAt. r = (get_jql_query self, startAt, 500, Some ''key'')"
  proof (cases "jira_client_attr self")
    case None
    with run have "log = []"
      by (simp add: retrieve_all_slim_documents_def jira_client_def)
    then show ?thesis by simp
  next
    case (Some c)
    with run obtain docs where
      "paginate_jql_search c (get_jql_query self) JIRA_SLIM_PAGE_SIZE (Some ''key'')
         (slim_step u c) [] = Some (docs, err, log)"
      by (auto simp add: retrieve_all_slim_documents_def jira_client_def split: option.splits)
    then have "\<forall>r \<in> set log. \<exists>st. r = (get_jql_query self, st, JIRA_SLIM_PAGE_SIZE, Some ''key'')"
      by (rule paginate_jql_search_log)
    then show ?thesis by (simp add: JIRA_SLIM_PAGE_SIZE_def)
  qed
next
  fix bs log
  assume run: "retrieve_all_slim_documents u self start end' callback = Some (bs, None, log)"
  then obtain docs :: "slim_document list" where bs: "bs = batches (int 500) [] docs None"
    by (auto simp add: retrieve_all_slim_documents_def jira_client_def JIRA_SLIM_PAGE_SIZE_def
        split: option.splits sum.splits)
  have docs: "concat bs = docs" by (simp add: bs batches_concat)
  have p: "(0::nat) < 500" by simp
  have empty: "length ([] :: slim_document list) < 500" by simp
  show "length bs = length (concat bs) div 500 + 1"
    unfolding docs using batches_length [OF p empty, of docs] by (simp add: bs)
  show "length (last bs) = length (concat bs) mod 500"
    unfolding docs using batches_last [OF p empty, of docs] by (simp add: bs)
  fix k
  assume "k < length (concat bs) div 500"
  then show "length (bs ! k) = 500"
    unfolding docs using batches_full [OF p empty, of k docs] by (simp add: bs)
qed

theorem slim_listing_ignores_bounds_witness:
  "retrieve_all_slim_documents example_utils
     (ready_connector (example_client
        [example_issue ''OPS-1'' [] None [], example_issue ''OPS-2'' [] None []]))
     (Some 1700000000) (Some 1700003600) (None :: unit option) =
   Some ([[\<lparr>slim_id = ''https://jira.example.com/browse/OPS-1'', perm_sync_data = None\<rparr>,
           \<lparr>slim_id = ''https://jira.example.com/browse/OPS-2'', perm_sync_data = None\<rparr>]],
         None, [(''project = \"OPS\"'', 0, 500, Some ''key'')])
   \<and> length [[\<lparr>slim_id = ''https://jira.example.com/browse/OPS-1'', perm_sync_data = None\<rparr>,
           \<lparr>slim_id = ''https://jira.example.com/browse/OPS-2'', perm_sync_data = None\<rparr>]] =
       length (concat [[\<lparr>slim_id = ''https://jira.example.com/browse/OPS-1'',
                           perm_sync_data = None\<rparr>,
           \<lparr>slim_id = ''https://jira.example.com/browse/OPS-2'', perm_sync_data = None\<rparr>]])
         div 500 + 1"
proof -
  let ?rs = "[example_issue ''OPS-1'' [] None [], example_issue ''OPS-2'' [] None []]"
  let ?c = "example_client ?rs"
  let ?self = "ready_connector ?c"
  let ?jql = "''project = \"OPS\"''"
  let ?docs = "[\<lparr>slim_id = ''https://jira.example.com/browse/OPS-1'', perm_sync_data = None\<rparr>,
           \<lparr>slim_id = ''https://jira.example.com/browse/OPS-2'', perm_sync_data = None\<rparr>]"
  note t = slim_listing_ignores_bounds [where u = example_utils and self = ?self
      and start = "Some 1700000000" and end' = "Some 1700003600"
      and callback = "None :: unit option"]
  have fe: "for_each_issue (slim_step example_utils ?c) [] (map IssueObj ?rs) = (?docs, None)"
    by (simp add: slim_step_def example_utils_def example_field_def example_url_def
        example_issue_def example_client_def)
  have "paginate_jql_search ?c ?jql 500 (Some ''key'') (slim_step example_utils ?c) [] =
        Some (?docs, None,
              map (\<lambda>k. (?jql, int k * 500, 500, Some ''key'')) [0..<length ?rs div nat 500 + 1])"
    by (rule paginate_jql_search_serves [OF example_serves _ fe]) simp
  then have "retrieve_all_slim_documents example_utils ?self None None (None :: unit option) =
      Some ([?docs], None, [(?jql, 0, 500, Some ''key'')])"
    by (simp add: retrieve_all_slim_documents_def ready_connector_simps jira_client_def
        JIRA_SLIM_PAGE_SIZE_def)
  with t [THEN conjunct1]
  have run: "retrieve_all_slim_documents example_utils ?self (Some 1700000000)
               (Some 1700003600) (None :: unit option) =
             Some ([?docs], None, [(?jql, 0, 500, Some ''key'')])"
    by (simp only:)
  from t [THEN conjunct2, THEN conjunct2, THEN spec, THEN spec, THEN mp, OF run, THEN conjunct1]
  have "length [?docs] = length (concat [?docs]) div 500 + 1" .
  with run show ?thesis by (rule conjI)
qed

text \<open>
  C9. Creator and assignee are resolved one after the other, each in its own \<^verbatim>\<open>try\<close>
  block; an exception in one block is swallowed there. Whether a record is yielded,
  skipped or ends the run with an exception does not depend on how the two resolutions
  go: with any other behaviour of the person helper (and of the field helper on these
  two fields) the outcome is the same up to the owners of the document. The owners of
  a yielded document are the persons resolved, or \<^verbatim>\<open>None\<close> when there are none: with a
  valid creator and an assignee whose resolution raises it is the creator alone, and
  when both resolutions raise the document has no owners.
\<close>

theorem owner_resilience:
  "(\<forall>h g. (\<forall>i' f. f \<noteq> ''creator'' \<longrightarrow> f \<noteq> ''assignee'' \<longrightarrow>
              h i' f = best_effort_get_field_from_issue u i' f) \<longrightarrow>
      process_issue
        (u\<lparr>best_effort_get_field_from_issue := h, best_effort_basic_expert_info := g\<rparr>)
        c blacklist skip i =
      map_sum id
        (map_option (\<lambda>d. d\<lparr>primary_owners :=
           (if people (u\<lparr>best_effort_get_field_from_issue := h,
                         best_effort_basic_expert_info := g\<rparr>) i = {} then None
            else Some (people (u\<lparr>best_effort_get_field_from_issue := h,
                                 best_effort_basic_expert_info := g\<rparr>) i))\<rparr>))
        (process_issue u c blacklist skip i))
   \<and> (\<forall>d. process_issue u c blacklist skip i = Inr (Some d) \<longrightarrow>
          primary_owners d = (if people u i = {} then None else Some (people u i)))
   \<and> (\<forall>p info.
         best_effort_get_field_from_issue u i ''creator'' = Inr p \<longrightarrow>
         best_effort_basic_expert_info u p = Inr (Some info) \<longrightarrow>
         person_resolution_raises u i ''assignee'' \<longrightarrow>
         people u i = {info} \<and> card (people u i) = 1
         \<and> (\<forall>d. process_issue u c blacklist skip i = Inr (Some d) \<longrightarrow>
                primary_owners d = Some {info}))
   \<and> (\<forall>p info.
         person_resolution_raises u i ''creator'' \<longrightarrow>
         best_effort_get_field_from_issue u i ''assignee'' = Inr p \<longrightarrow>
         best_effort_basic_expert_info u p = Inr (Some info) \<longrightarrow>
         people u i = {info}
         \<and> (\<forall>d. process_issue u c blacklist skip i = Inr (Some d) \<longrightarrow>
                primary_owners d = Some {info}))
   \<and> (person_resolution_raises u i ''creator'' \<longrightarrow>
       person_resolution_raises u i ''assignee'' \<longrightarrow>
         people u i = {}
         \<and> (\<forall>d. process_issue u c blacklist skip i = Inr (Some d) \<longrightarrow>
                primary_owners d = None))"
proof (intro conjI allI impI)
  fix h and g :: "pyval \<Rightarrow> exn + basic_expert_info option"
  assume "\<forall>i' f. f \<noteq> ''creator'' \<longrightarrow> f \<noteq> ''assignee'' \<longrightarrow>
              h i' f = best_effort_get_field_from_issue u i' f"
  then have "\<And>i' f. f \<noteq> ''creator'' \<Longrightarrow> f \<noteq> ''assignee'' \<Longrightarrow>
              h i' f = best_effort_get_field_from_issue u i' f" by blast
  then show "process_issue
        (u\<lparr>best_effort_get_field_from_issue := h, best_effort_basic_expert_info := g\<rparr>)
        c blacklist skip i =
      map_sum id
        (map_option (\<lambda>d. d\<lparr>primary_owners :=
           (if people (u\<lparr>best_effort_get_field_from_issue := h,
                         best_effort_basic_expert_info := g\<rparr>) i = {} then None
            else Some (people (u\<lparr>best_effort_get_field_from_issue := h,
                                 best_effort_basic_expert_info := g\<rparr>) i))\<rparr>))
        (process_issue u c blacklist skip i)"
    by (rule process_issue_other_person_resolution)
next
  fix d
  assume "process_issue u c blacklist skip i = Inr (Some d)"
  then show "primary_owners d = (if people u i = {} then None else Some (people u i))"
    by (rule process_issue_owners)
next
  fix p info
  assume "best_effort_get_field_from_issue u i ''creator'' = Inr p"
    and "best_effort_basic_expert_info u p = Inr (Some info)"
    and "person_resolution_raises u i ''assignee''"
  then show ppl: "people u i = {info}"
    by (simp add: people_def resolve_person_raises resolve_person_valid)
  then show "card (people u i) = 1" by simp
  fix d
  assume "process_issue u c blacklist skip i = Inr (Some d)"
  from process_issue_owners [OF this] ppl show "primary_owners d = Some {info}" by simp
next
  fix p info
  assume "person_resolution_raises u i ''creator''"
    and "best_effort_get_field_from_issue u i ''assignee'' = Inr p"
    and "best_effort_basic_expert_info u p = Inr (Some info)"
  then show ppl: "people u i = {info}"
    by (simp add: people_def resolve_person_raises resolve_person_valid)
  fix d
  assume "process_issue u c blacklist skip i = Inr (Some d)"
  from process_issue_owners [OF this] ppl show "primary_owners d = Some {info}" by simp
next
  assume "person_resolution_raises u i ''creator''"
    and "person_resolution_raises u i ''assignee''"
  then show ppl: "people u i = {}"
    by (simp add: people_def resolve_person_raises)
  fix d
  assume "process_issue u c blacklist skip i = Inr (Some d)"
  from process_issue_owners [OF this] ppl show "primary_owners d = None" by simp
qed

theorem owner_resilience_witness:
  "people example_utils
     (example_issue ''OPS-1'' [] (Some ''Body'')
        [(''creator'', PyObject [(''displayName'', PyStr ''Ann'')]),
         (''assignee'', PyStr ''malformed'')]) =
     {BasicExpertInfo (Some ''Ann'') None}
   \<and> (\<exists>d. process_issue example_utils (example_client []) [] (Some {''secret''})
          (example_issue ''OPS-1'' [] (Some ''Body'')
             [(''creator'', PyObject [(''displayName'', PyStr ''Ann'')]),
              (''assignee'', PyStr ''malformed'')]) = Inr (Some d)
        \<and> primary_owners d = Some {BasicExpertInfo (Some ''Ann'') None})"
proof -
  let ?i = "example_issue ''OPS-1'' [] (Some ''Body'')
             [(''creator'', PyObject [(''displayName'', PyStr ''Ann'')]),
              (''assignee'', PyStr ''malformed'')]"
  let ?c = "example_client []"
  let ?ann = "BasicExpertInfo (Some ''Ann'') None"
  have creator: "best_effort_get_field_from_issue example_utils ?i ''creator'' =
                   Inr (PyObject [(''displayName'', PyStr ''Ann'')])"
    by (simp add: example_utils_def example_field_def example_issue_def)
  have valid: "best_effort_basic_expert_info example_utils
                 (PyObject [(''displayName'', PyStr ''Ann'')]) = Inr (Some ?ann)"
    by (simp add: example_utils_def example_person_def)
  have assignee: "person_resolution_raises example_utils ?i ''assignee''"
    by (simp add: person_resolution_raises_def example_utils_def example_field_def
        example_issue_def example_person_def)
  note r = owner_resilience [where u = example_utils and i = ?i and c = ?c and blacklist = "[]"
        and skip = "Some {''secret''}",
      THEN conjunct2, THEN conjunct2, THEN conjunct1, THEN spec, THEN spec,
      THEN mp, OF creator, THEN mp, OF valid, THEN mp, OF assignee]
  have "\<exists>d. process_issue example_utils ?c [] (Some {''secret''}) ?i = Inr (Some d)"
    by (simp add: process_issue_def has_label_to_skip_def example_issue_def assemble_content_def
      issue_description_def JIRA_API_VERSION_def example_utils_def example_comments_def
      ticket_content_def newline_def build_document_def Let_def
      example_field_def issue_metadata_def metadata_name_def)
  then obtain d where d: "process_issue example_utils ?c [] (Some {''secret''}) ?i = Inr (Some d)" ..
  from r [THEN conjunct2, THEN conjunct2, THEN spec, THEN mp, OF d]
  have "primary_owners d = Some {?ann}" .
  with d have "process_issue example_utils ?c [] (Some {''secret''}) ?i = Inr (Some d)
                 \<and> primary_owners d = Some {?ann}" ..
  then have ex: "\<exists>d. process_issue example_utils ?c [] (Some {''secret''}) ?i = Inr (Some d)
                 \<and> primary_owners d = Some {?ann}" by (rule exI [where x = d])
  from r [THEN conjunct1] ex show ?thesis by (rule conjI)
qed

text \<open>
  C10. Under API version 2 a record without a description (\<^verbatim>\<open>None\<close>) that is yielded has
  a content that starts with \<open>None\<close> and a newline: the missing value is formatted as
  text. And the content of a yielded record none of whose comments survives (no
  comments, or empty ones only) is the description followed by one newline.
\<close>

theorem none_description_content:
  "(JIRA_API_VERSION u = ''2'' \<longrightarrow> description i = None \<longrightarrow>
      (\<forall>d. process_issue u c blacklist skip i = Inr (Some d) \<longrightarrow>
         (\<exists>rest. map section_text (sections d) = [''None'' @ newline @ rest])))
   \<and> (\<forall>d descr comments.
        process_issue u c blacklist skip i = Inr (Some d) \<longrightarrow>
        issue_description u i = Inr descr \<longrightarrow>
        get_comment_strs u i blacklist = Inr comments \<longrightarrow>
        filter (\<lambda>comment. comment \<noteq> []) comments = [] \<longrightarrow>
        map section_text (sections d) = [format_optional descr @ newline])
   \<and> (JIRA_API_VERSION u = ''2'' \<longrightarrow> issue_description u i = Inr (description i))
   \<and> ticket_content None [] = ''None'' @ newline"
proof (intro conjI allI impI)
  fix d
  assume v: "JIRA_API_VERSION u = ''2''" and n: "description i = None"
    and p: "process_issue u c blacklist skip i = Inr (Some d)"
  from p obtain descr comments where "issue_description u i = Inr descr"
    and t: "map section_text (sections d) = [ticket_content descr comments]"
    by (rule process_issue_text)
  with v n have "descr = None" by (simp add: issue_description_def)
  with t have "map section_text (sections d) =
      [''None'' @ newline @ join newline (map (\<lambda>comment. ''Comment: '' @ comment)
                    (filter (\<lambda>comment. comment \<noteq> []) comments))]"
    by (simp add: ticket_content_def)
  then show "\<exists>rest. map section_text (sections d) = [''None'' @ newline @ rest]"
    by (rule exI)
next
  fix d descr comments
  assume p: "process_issue u c blacklist skip i = Inr (Some d)"
    and de: "issue_description u i = Inr descr"
    and co: "get_comment_strs u i blacklist = Inr comments"
    and no: "filter (\<lambda>comment. comment \<noteq> []) comments = []"
  from p obtain descr' comments' where "issue_description u i = Inr descr'"
    and "get_comment_strs u i blacklist = Inr comments'"
    and t: "map section_text (sections d) = [ticket_content descr' comments']"
    by (rule process_issue_text)
  with de co have "descr' = descr" "comments' = comments" by simp_all
  with t no show "map section_text (sections d) = [format_optional descr @ newline]"
    by (simp add: ticket_content_def)
next
  assume "JIRA_API_VERSION u = ''2''"
  then show "issue_description u i = Inr (description i)"
    by (simp add: issue_description_def)
next
  show "ticket_content None [] = ''None'' @ newline"
    by (simp add: ticket_content_def)
qed

theorem none_description_content_witness:
  "process_issue example_utils (example_client []) [] (Some {''secret''})
     (example_issue ''OPS-1'' [] None []) =
     Inr (Some (example_document (example_client []) ''OPS-1'' (''None'' @ newline) None))
   \<and> (\<exists>rest. map section_text
        (sections (example_document (example_client []) ''OPS-1'' (''None'' @ newline) None)) =
        [''None'' @ newline @ rest])
   \<and> map section_text
        (sections (example_document (example_client []) ''OPS-1'' (''None'' @ newline) None)) =
        [format_optional None @ newline]"
proof -
  let ?c = "example_client []"
  let ?i = "example_issue ''OPS-1'' [] None []"
  let ?d = "example_document ?c ''OPS-1'' (''None'' @ newline) None"
  have v: "JIRA_API_VERSION example_utils = ''2''"
    by (simp add: JIRA_API_VERSION_def example_utils_def)
  have n: "description ?i = None" by (simp add: example_issue_def)
  have p: "process_issue example_utils ?c [] (Some {''secret''}) ?i = Inr (Some ?d)"
    by (simp add: process_issue_def has_label_to_skip_def example_assemble_content
        example_build_document)
       (simp add: example_issue_def example_utils_def newline_def example_document_def)
  have de: "issue_description example_utils ?i = Inr None"
    by (simp add: issue_description_def v n)
  have co: "get_comment_strs example_utils ?i [] = Inr []"
    by (simp add: example_utils_def example_comments_def example_issue_def)
  have no: "filter (\<lambda>comment. comment \<noteq> []) ([] :: string list) = []" by simp
  note t = none_description_content [where u = example_utils and i = ?i and c = ?c
      and blacklist = "[]" and skip = "Some {''secret''}"]
  from t [THEN conjunct1, THEN mp, OF v, THEN mp, OF n, THEN spec, THEN mp, OF p]
  have a: "\<exists>rest. map section_text (sections ?d) = [''None'' @ newline @ rest]" .
  from t [THEN conjunct2, THEN conjunct1, THEN spec, THEN spec, THEN spec,
      THEN mp, OF p, THEN mp, OF de, THEN mp, OF co, THEN mp, OF no]
  have b: "map section_text (sections ?d) = [format_optional None @ newline]" .
  from p a b show ?thesis by (intro conjI)
qed

end
